theory Spec2Isabelle
  imports Complex_Main "HOL-Library.Sublist" "HOL-Library.Multiset"
begin

section \<open>Python values, exceptions and the log\<close>

text \<open>
  A raw record is a Python dict from field names to values. The record readers of the
  repository (\<^verbatim>\<open>PubMedExtractor._parse_medline\<close>, \<^verbatim>\<open>CochraneExtractor.search\<close>,
  \<^verbatim>\<open>ClinicalTrialsExtractor.search\<close>) produce strings and lists of strings, which is also the
  value type the data model gives for a raw record. A dict is a map; \<^verbatim>\<open>d.get(k, default)\<close>
  is \<open>get_default\<close>.

  Private methods keep their names without the leading underscore. Where QualityChecker
  and DataValidator both have a method of some name, the former carries the prefix \<open>qc_\<close>
  and the latter \<open>dv_\<close>.

  A string is a list of characters, and a character stands for the code point of the same
  number, U+0000 to U+00FF. Python's \<^verbatim>\<open>str.isspace\<close> (which \<^verbatim>\<open>strip\<close>, \<^verbatim>\<open>split\<close> and \<^verbatim>\<open>\s\<close>
  follow), \<^verbatim>\<open>\d\<close>, \<^verbatim>\<open>\w\<close> and \<^verbatim>\<open>lower\<close> are given on that whole range; text with code points
  above U+00FF has no counterpart here.
\<close>

datatype pyval = PStr string | PList "string list"

type_synonym raw_record = "string \<rightharpoonup> pyval"

datatype exn = ValueError | TypeError | AttributeError | IndexError | NameError | ZeroDivisionError

datatype level = INFO | WARNING | ERROR

type_synonym log = "(level \<times> string) list"

definition get_default :: "(string \<rightharpoonup> 'v) \<Rightarrow> string \<Rightarrow> 'v \<Rightarrow> 'v" where
  "get_default d k dflt = (case d k of None \<Rightarrow> dflt | Some v \<Rightarrow> v)"

fun truthy :: "pyval \<Rightarrow> bool" where
  "truthy (PStr s) = (s \<noteq> [])"
| "truthy (PList xs) = (xs \<noteq> [])"

section \<open>String operations\<close>

text \<open>
  The code points below U+0100 that \<^verbatim>\<open>str.isspace\<close> accepts: the ASCII white space, the
  separators U+001C to U+001F, NEL (U+0085) and the no-break space (U+00A0).
\<close>

definition is_space :: "char \<Rightarrow> bool" where
  "is_space c = (c \<in> set [CHR 0x09, CHR 0x0A, CHR 0x0B, CHR 0x0C, CHR 0x0D,
                           CHR 0x1C, CHR 0x1D, CHR 0x1E, CHR 0x1F, CHR 0x20,
                           CHR 0x85, CHR 0xA0])"

definition is_digit :: "char \<Rightarrow> bool" where
  "is_digit c = (c \<in> set ''0123456789'')"

text \<open>
  \<^verbatim>\<open>\d\<close> accepts the decimal digits, which below U+0100 are 0 to 9. \<^verbatim>\<open>\w\<close> accepts the
  underscore and every alphanumeric code point: beside the ASCII letters and digits these
  are U+00AA, U+00B2, U+00B3, U+00B5, U+00B9, U+00BA, U+00BC to U+00BE, and U+00C0 to U+00FF
  without the two signs U+00D7 and U+00F7.
\<close>

definition is_word :: "char \<Rightarrow> bool" where
  "is_word c =
     (c \<in> set ''abcdefghijklmnopqrstuvwxyzABCDEFGHIJKLMNOPQRSTUVWXYZ0123456789_'' \<or>
      c \<in> set [CHR 0xAA, CHR 0xB2, CHR 0xB3, CHR 0xB5, CHR 0xB9, CHR 0xBA,
                 CHR 0xBC, CHR 0xBD, CHR 0xBE] \<or>
      (0xC0 \<le> (of_char c :: nat) \<and> c \<noteq> CHR 0xD7 \<and> c \<noteq> CHR 0xF7))"

definition strip :: "string \<Rightarrow> string" where
  "strip s = rev (dropWhile is_space (rev (dropWhile is_space s)))"

text \<open>
  \<^verbatim>\<open>str.lower\<close> below U+0100: A to Z, and U+00C0 to U+00DE without the sign U+00D7, move up
  by 32; every other code point stays.
\<close>

definition lower_char :: "char \<Rightarrow> char" where
  "lower_char c =
     (let n = (of_char c :: nat)
      in if (0x41 \<le> n \<and> n \<le> 0x5A) \<or> (0xC0 \<le> n \<and> n \<le> 0xDE \<and> n \<noteq> 0xD7)
         then char_of (n + 32) else c)"

definition lower :: "string \<Rightarrow> string" where
  "lower s = map lower_char s"

text \<open>\<^verbatim>\<open>s.split()\<close>: the maximal runs of non-whitespace characters.\<close>

fun split_ws :: "string \<Rightarrow> string \<Rightarrow> string list" where
  "split_ws cur [] = (if cur = [] then [] else [cur])"
| "split_ws cur (c # cs) =
     (if is_space c then (if cur = [] then split_ws [] cs else cur # split_ws [] cs)
      else split_ws (cur @ [c]) cs)"

definition py_split :: "string \<Rightarrow> string list" where
  "py_split s = split_ws [] s"

text \<open>\<^verbatim>\<open>s.split(',')\<close>: every separator cuts, empty pieces are kept.\<close>

fun split_on :: "char \<Rightarrow> string \<Rightarrow> string \<Rightarrow> string list" where
  "split_on d cur [] = [cur]"
| "split_on d cur (c # cs) =
     (if c = d then cur # split_on d [] cs else split_on d (cur @ [c]) cs)"

fun join :: "string \<Rightarrow> string list \<Rightarrow> string" where
  "join sep [] = []"
| "join sep [x] = x"
| "join sep (x # y # ys) = x @ sep @ join sep (y # ys)"

text \<open>
  \<^verbatim>\<open>' '.join([...])\<close> over values taken from the record: a value that is not a string makes
  \<^verbatim>\<open>join\<close> raise TypeError.
\<close>

fun the_strs :: "pyval list \<Rightarrow> string list option" where
  "the_strs [] = Some []"
| "the_strs (PStr s # vs) = (case the_strs vs of None \<Rightarrow> None | Some ss \<Rightarrow> Some (s # ss))"
| "the_strs (PList xs # vs) = None"

definition join_fields :: "pyval list \<Rightarrow> exn + string" where
  "join_fields vs = (case the_strs vs of None \<Rightarrow> Inl TypeError | Some ss \<Rightarrow> Inr (join '' '' ss))"

definition digit_val :: "char \<Rightarrow> int" where
  "digit_val c = int (of_char c) - 48"

definition int_of_digits :: "string \<Rightarrow> int" where
  "int_of_digits s = foldl (\<lambda>a c. 10 * a + digit_val c) 0 s"

section \<open>Regular expressions as the source uses them\<close>

text \<open>
  The patterns of the source are sequences of literals, the dot, alternatives of literals and
  greedy repetitions of a single character class. \<open>atom_matches a s\<close> lists what is left of
  \<open>s\<close> after each way \<open>a\<close> can match at its start, in the order the backtracking matcher of
  \<^verbatim>\<open>re\<close> tries them (a greedy repetition tries the longest run first). The first element of
  \<open>seq_matches r s\<close> is therefore the match \<^verbatim>\<open>re.match\<close> finds.
\<close>

datatype atom =
    Lit string
  | Dot
  | Alt "string list"
  | Rep "char \<Rightarrow> bool" nat "nat option"

type_synonym regex = "atom list"

fun atom_matches :: "atom \<Rightarrow> string \<Rightarrow> string list" where
  "atom_matches (Lit w) s = (if prefix w s then [drop (length w) s] else [])"
| "atom_matches Dot s = (case s of [] \<Rightarrow> [] | c # cs \<Rightarrow> if c = CHR 0x0A then [] else [cs])"
| "atom_matches (Alt ws) s =
     concat (map (\<lambda>w. if prefix w s then [drop (length w) s] else []) ws)"
| "atom_matches (Rep p lo hi) s =
     (let n = length (takeWhile p s);
          m = (case hi of None \<Rightarrow> n | Some h \<Rightarrow> min n h)
      in map (\<lambda>k. drop k s) (rev [lo ..< Suc m]))"

fun seq_matches :: "regex \<Rightarrow> string \<Rightarrow> string list" where
  "seq_matches [] s = [s]"
| "seq_matches (a # as) s = concat (map (seq_matches as) (atom_matches a s))"

text \<open>\<^verbatim>\<open>re.search(r, s).group(0)\<close>: the first match at the leftmost start position.\<close>

fun re_search :: "regex \<Rightarrow> string \<Rightarrow> string option" where
  "re_search r [] = (case seq_matches r [] of [] \<Rightarrow> None | rest # _ \<Rightarrow> Some [])"
| "re_search r (c # cs) =
     (case seq_matches r (c # cs) of
        [] \<Rightarrow> re_search r cs
      | rest # _ \<Rightarrow> Some (take (length (c # cs) - length rest) (c # cs)))"

text \<open>
  \<^verbatim>\<open>re.search(pre (grp) suf, s).group(1)\<close> for a pattern with one group: the text the group
  consumed in the first match.
\<close>

definition group1_at :: "regex \<Rightarrow> regex \<Rightarrow> regex \<Rightarrow> string \<Rightarrow> string list" where
  "group1_at pre grp suf s =
     concat (map (\<lambda>r1. concat (map (\<lambda>r2. map (\<lambda>r3. take (length r1 - length r2) r1)
                                              (seq_matches suf r2))
                                  (seq_matches grp r1)))
                 (seq_matches pre s))"

fun re_search_group1 :: "regex \<Rightarrow> regex \<Rightarrow> regex \<Rightarrow> string \<Rightarrow> string option" where
  "re_search_group1 pre grp suf [] =
     (case group1_at pre grp suf [] of [] \<Rightarrow> None | g # _ \<Rightarrow> Some g)"
| "re_search_group1 pre grp suf (c # cs) =
     (case group1_at pre grp suf (c # cs) of
        [] \<Rightarrow> re_search_group1 pre grp suf cs
      | g # _ \<Rightarrow> Some g)"

text \<open>\<^verbatim>\<open>re.match(r, s)\<close> succeeds when some match starts at position 0.\<close>

definition re_match :: "regex \<Rightarrow> string \<Rightarrow> bool" where
  "re_match r s = (seq_matches r s \<noteq> [])"

section \<open>The metadata extractor (src/extractors/paper\_data.py)\<close>

record paper_metadata =
  title :: string
  authors :: "string list"
  doi :: "string option"
  year :: "int option"
  sample_size :: "int option"
  study_type :: "string option"
  full_text_links :: "string multiset"

text \<open>\<^verbatim>\<open>DOI_PATTERN = r'10.\d{4,9}/[-._;()/:\w]+'\<close>; the dot after \<^verbatim>\<open>10\<close> is not escaped.\<close>

definition doi_suffix_char :: "char \<Rightarrow> bool" where
  "doi_suffix_char c = (c \<in> set ''-._;()/:'' \<or> is_word c)"

definition DOI_PATTERN :: regex where
  "DOI_PATTERN = [Lit ''10'', Dot, Rep is_digit 4 (Some 9), Lit ''/'', Rep doi_suffix_char 1 None]"

definition STUDY_TYPES :: "(string \<times> string list) list" where
  "STUDY_TYPES =
     [(''RCT'', [''randomized'', ''randomised'', ''rct'']),
      (''Cohort'', [''cohort'', ''longitudinal'']),
      (''Case-Control'', [''case-control'', ''case control'']),
      (''Meta-Analysis'', [''meta-analysis'', ''meta analysis'']),
      (''Systematic Review'', [''systematic review'']),
      (''Observational'', [''observational'', ''cross-sectional''])]"

text \<open>
  \<^verbatim>\<open>_validate_title\<close>: a falsy title or one shorter than three characters after
  \<^verbatim>\<open>strip\<close> raises ValueError; a non-empty list has no \<^verbatim>\<open>strip\<close> (AttributeError).
\<close>

definition validate_title :: "pyval \<Rightarrow> exn + string" where
  "validate_title t =
     (if \<not> truthy t then Inl ValueError
      else case t of
             PList xs \<Rightarrow> Inl AttributeError
           | PStr s \<Rightarrow> if length (strip s) < 3 then Inl ValueError else Inr (strip s))"

definition resolve_title :: "raw_record \<Rightarrow> pyval" where
  "resolve_title paper_data =
     get_default paper_data ''TI'' (get_default paper_data ''title'' (PStr []))"

text \<open>\<^verbatim>\<open>_extract_authors\<close>: a string is split on commas; entries of length at most 1 are dropped.\<close>

definition keep_author :: "string \<Rightarrow> bool" where
  "keep_author a = (a \<noteq> [] \<and> length a > 1)"

definition extract_authors :: "raw_record \<Rightarrow> log \<times> string list" where
  "extract_authors data =
     (let raw_authors =
            get_default data ''AU'' (get_default data ''authors'' (get_default data ''FAU'' (PList [])));
          raw_list = (case raw_authors of
                        PStr s \<Rightarrow> map strip (split_on CHR '','' [] s)
                      | PList xs \<Rightarrow> xs);
          found = filter keep_author (map strip raw_list)
      in (if found = [] then [(WARNING, ''No valid authors found'')] else [], found))"

text \<open>
  \<^verbatim>\<open>_extract_doi\<close> has no exception handler of its own: \<^verbatim>\<open>re.search\<close> on a value that is
  not a string raises TypeError.
\<close>

definition extract_doi :: "raw_record \<Rightarrow> exn + string option" where
  "extract_doi data =
     (let d = get_default data ''DOI'' (get_default data ''doi'' (PStr []))
      in if truthy d then
           (case d of
              PList xs \<Rightarrow> Inl TypeError
            | PStr s \<Rightarrow> Inr (re_search DOI_PATTERN s))
         else Inr None)"

section \<open>Dates: strptime on the four formats of the source\<close>

text \<open>
  \<^verbatim>\<open>datetime.strptime\<close> translates a format into a regular expression (\<^verbatim>\<open>%Y\<close> four digits,
  \<^verbatim>\<open>%m\<close> \<^verbatim>\<open>1[0-2]|0[1-9]|[1-9]\<close>, \<^verbatim>\<open>%d\<close> \<^verbatim>\<open>3[01]|[12]\d|0[1-9]|[1-9]| [1-9]\<close>, \<^verbatim>\<open>%b\<close> the
  month abbreviations without regard to case, a blank \<^verbatim>\<open>\s+\<close>), matches it at the start of
  the text, and raises ValueError when nothing matches, when text remains after the match,
  or when the date does not exist. Unset fields default to 1 January 1900.
\<close>

datatype directive = DY | Dm | Dd | Db | DLit char | DSpace

type_synonym ymd = "int \<times> int \<times> int"

definition month_abbrs :: "string list" where
  "month_abbrs = [''jan'', ''feb'', ''mar'', ''apr'', ''may'', ''jun'',
                  ''jul'', ''aug'', ''sep'', ''oct'', ''nov'', ''dec'']"

fun index_of :: "'a \<Rightarrow> 'a list \<Rightarrow> nat option" where
  "index_of x [] = None"
| "index_of x (y # ys) =
     (if x = y then Some 0 else case index_of x ys of None \<Rightarrow> None | Some i \<Rightarrow> Some (Suc i))"

fun directive_matches :: "directive \<Rightarrow> ymd \<Rightarrow> string \<Rightarrow> (ymd \<times> string) list" where
  "directive_matches DY (y, m, d) s =
     (if 4 \<le> length s \<and> list_all is_digit (take 4 s)
      then [((int_of_digits (take 4 s), m, d), drop 4 s)] else [])"
| "directive_matches Dm (y, m, d) s =
     (case s of
        c1 # c2 # r \<Rightarrow>
          (if c1 = CHR ''1'' \<and> c2 \<in> set ''012'' then [((y, int_of_digits [c1, c2], d), r)] else []) @
          (if c1 = CHR ''0'' \<and> c2 \<in> set ''123456789'' then [((y, int_of_digits [c1, c2], d), r)] else [])
      | _ \<Rightarrow> []) @
     (case s of
        c1 # r \<Rightarrow> if c1 \<in> set ''123456789'' then [((y, digit_val c1, d), r)] else []
      | [] \<Rightarrow> [])"
| "directive_matches Dd (y, m, d) s =
     (case s of
        c1 # c2 # r \<Rightarrow>
          (if c1 = CHR ''3'' \<and> c2 \<in> set ''01'' then [((y, m, int_of_digits [c1, c2]), r)] else []) @
          (if c1 \<in> set ''12'' \<and> is_digit c2 then [((y, m, int_of_digits [c1, c2]), r)] else []) @
          (if c1 = CHR ''0'' \<and> c2 \<in> set ''123456789'' then [((y, m, int_of_digits [c1, c2]), r)] else [])
      | _ \<Rightarrow> []) @
     (case s of
        c1 # r \<Rightarrow> if c1 \<in> set ''123456789'' then [((y, m, digit_val c1), r)] else []
      | [] \<Rightarrow> []) @
     (case s of
        c1 # c2 # r \<Rightarrow>
          if c1 = CHR '' '' \<and> c2 \<in> set ''123456789'' then [((y, m, digit_val c2), r)] else []
      | _ \<Rightarrow> [])"
| "directive_matches Db (y, m, d) s =
     (case index_of (lower (take 3 s)) month_abbrs of
        None \<Rightarrow> []
      | Some i \<Rightarrow> [((y, int i + 1, d), drop 3 s)])"
| "directive_matches (DLit c) (y, m, d) s =
     (case s of [] \<Rightarrow> [] | c1 # r \<Rightarrow> if c1 = c then [((y, m, d), r)] else [])"
| "directive_matches DSpace (y, m, d) s =
     map (\<lambda>k. ((y, m, d), drop k s)) (rev [1 ..< Suc (length (takeWhile is_space s))])"

fun format_matches :: "directive list \<Rightarrow> ymd \<Rightarrow> string \<Rightarrow> (ymd \<times> string) list" where
  "format_matches [] v s = [(v, s)]"
| "format_matches (f # fs) v s =
     concat (map (\<lambda>(v', s'). format_matches fs v' s') (directive_matches f v s))"

definition is_leap :: "int \<Rightarrow> bool" where
  "is_leap y = (y mod 4 = 0 \<and> (y mod 100 \<noteq> 0 \<or> y mod 400 = 0))"

definition days_in_month :: "int \<Rightarrow> int \<Rightarrow> int" where
  "days_in_month y m =
     (if m = 2 then (if is_leap y then 29 else 28)
      else if m \<in> set [4, 6, 9, 11] then 30 else 31)"

text \<open>\<^verbatim>\<open>datetime.strptime(s, fmt).year\<close>; \<open>None\<close> is ValueError.\<close>

definition strptime_year :: "string \<Rightarrow> directive list \<Rightarrow> int option" where
  "strptime_year s fmt =
     (case format_matches fmt (1900, 1, 1) s of
        [] \<Rightarrow> None
      | ((y, m, d), rest) # _ \<Rightarrow>
          if rest \<noteq> [] then None
          else if y < 1 \<or> days_in_month y m < d then None
          else Some y)"

definition date_formats :: "directive list list" where
  "date_formats =
     [[DY],
      [DY, DLit CHR ''/'', Dm, DLit CHR ''/'', Dd],
      [DY, DLit CHR ''-'', Dm, DLit CHR ''-'', Dd],
      [DY, DSpace, Db, DSpace, Dd]]"

text \<open>
  \<^verbatim>\<open>_extract_year\<close>: the inner handler catches ValueError only and goes on to the next format;
  any other exception (\<^verbatim>\<open>split\<close> on a list, index 0 of an empty split) reaches the outer
  handler, which logs a warning and returns None.
\<close>

fun try_formats :: "string \<Rightarrow> directive list list \<Rightarrow> int option" where
  "try_formats tok [] = None"
| "try_formats tok (fmt # fmts) =
     (case strptime_year tok fmt of Some y \<Rightarrow> Some y | None \<Rightarrow> try_formats tok fmts)"

fun year_fields :: "raw_record \<Rightarrow> string list \<Rightarrow> exn + int option" where
  "year_fields data [] = Inr None"
| "year_fields data (f # fs) =
     (case data f of
        None \<Rightarrow> year_fields data fs
      | Some date_str \<Rightarrow>
          if truthy date_str then
            (case date_str of
               PList xs \<Rightarrow> Inl AttributeError
             | PStr s \<Rightarrow>
                 (case py_split s of
                    [] \<Rightarrow> Inl IndexError
                  | tok # _ \<Rightarrow>
                      (case try_formats tok date_formats of
                         Some y \<Rightarrow> Inr (Some y)
                       | None \<Rightarrow> year_fields data fs)))
          else year_fields data fs)"

definition extract_year :: "raw_record \<Rightarrow> log \<times> int option" where
  "extract_year data =
     (case year_fields data [''DP'', ''PDAT'', ''publication_date'', ''year''] of
        Inl e \<Rightarrow> ([(WARNING, ''Failed to extract year'')], None)
      | Inr y \<Rightarrow> ([], y))"

section \<open>Sample size, study type and links\<close>

definition sample_patterns :: "(regex \<times> regex \<times> regex) list" where
  "sample_patterns =
     [([Lit ''n'', Rep is_space 0 None, Lit ''='', Rep is_space 0 None],
       [Rep is_digit 1 None], []),
      ([Lit ''sample size '', Alt [''of'', ''was'', ''=''], Rep is_space 0 None],
       [Rep is_digit 1 None], []),
      ([Lit ''enrolled'', Rep is_space 0 None],
       [Rep is_digit 1 None], [Rep is_space 0 None, Lit ''participants'']),
      ([Lit ''included'', Rep is_space 0 None],
       [Rep is_digit 1 None], [Rep is_space 0 None, Lit ''patients''])]"

text \<open>
  \<^verbatim>\<open>int(match.group(1))\<close>: a run of more than 4300 digits exceeds the default limit of
  \<^verbatim>\<open>int\<close> on decimal strings and raises ValueError.
\<close>

definition py_int :: "string \<Rightarrow> exn + int" where
  "py_int g = (if 4300 < length g then Inl ValueError else Inr (int_of_digits g))"

fun first_pattern :: "(regex \<times> regex \<times> regex) list \<Rightarrow> string \<Rightarrow> exn + int option" where
  "first_pattern [] text = Inr None"
| "first_pattern ((pre, grp, suf) # ps) text =
     (case re_search_group1 pre grp suf text of
        Some g \<Rightarrow> (case py_int g of Inl e \<Rightarrow> Inl e | Inr n \<Rightarrow> Inr (Some n))
      | None \<Rightarrow> first_pattern ps text)"

definition extract_sample_size :: "raw_record \<Rightarrow> log \<times> int option" where
  "extract_sample_size data =
     (case join_fields [get_default data ''AB'' (PStr []),
                        get_default data ''abstract'' (PStr []),
                        get_default data ''methods'' (PStr [])] of
        Inl e \<Rightarrow> ([(WARNING, ''Failed to extract sample size'')], None)
      | Inr text \<Rightarrow>
          (case first_pattern sample_patterns (lower text) of
             Inl e \<Rightarrow> ([(WARNING, ''Failed to extract sample size'')], None)
           | Inr n \<Rightarrow> ([], n)))"

text \<open>
  \<^verbatim>\<open>_detect_study_type\<close>: the categories are tried in the order of the dict literal; the
  first one with a keyword inside the lower-cased text is returned.
\<close>

fun first_study_type :: "(string \<times> string list) list \<Rightarrow> string \<Rightarrow> string option" where
  "first_study_type [] text = None"
| "first_study_type ((st, keywords) # rest) text =
     (if list_ex (\<lambda>keyword. sublist keyword text) keywords then Some st
      else first_study_type rest text)"

definition study_text :: "raw_record \<Rightarrow> exn + string" where
  "study_text data =
     (case join_fields [get_default data ''TI'' (PStr []),
                        get_default data ''AB'' (PStr []),
                        get_default data ''PT'' (PStr []),
                        get_default data ''publication_type'' (PStr [])] of
        Inl e \<Rightarrow> Inl e
      | Inr text \<Rightarrow> Inr (lower text))"

definition detect_study_type :: "raw_record \<Rightarrow> log \<times> string option" where
  "detect_study_type data =
     (case study_text data of
        Inl e \<Rightarrow> ([(WARNING, ''Failed to detect study type'')], None)
      | Inr text \<Rightarrow> ([], first_study_type STUDY_TYPES text))"

text \<open>
  \<^verbatim>\<open>_extract_full_text_links\<close>: the values of three fields that start with \<^verbatim>\<open>http://\<close> or
  \<^verbatim>\<open>https://\<close>, then the link built from the DOI. An exception inside (only the DOI lookup
  can raise on these values) is logged and the links collected so far are kept. The result
  is \<^verbatim>\<open>list(set(links))\<close>: a list without repetitions whose order Python leaves open. It is a
  multiset here, which records how often each link occurs and no order.
\<close>

definition is_http :: "string \<Rightarrow> bool" where
  "is_http url = (prefix ''http://'' url \<or> prefix ''https://'' url)"

fun collect_urls :: "raw_record \<Rightarrow> string list \<Rightarrow> string list" where
  "collect_urls data [] = []"
| "collect_urls data (f # fs) =
     (let urls = (case get_default data f (PList []) of PStr s \<Rightarrow> [s] | PList xs \<Rightarrow> xs)
      in filter is_http urls @ collect_urls data fs)"

definition list_of_set :: "string list \<Rightarrow> string multiset" where
  "list_of_set links = mset (remdups links)"

definition extract_full_text_links :: "raw_record \<Rightarrow> log \<times> string multiset" where
  "extract_full_text_links data =
     (let links = collect_urls data [''LID'', ''OUR'', ''full_text_url'']
      in case extract_doi data of
           Inl e \<Rightarrow> ([(WARNING, ''Failed to extract full text links'')], list_of_set links)
         | Inr None \<Rightarrow> ([], list_of_set links)
         | Inr (Some d) \<Rightarrow>
             if d \<noteq> [] then ([], list_of_set (links @ [''https://doi.org/'' @ d]))
             else ([], list_of_set links))"

text \<open>
  \<^verbatim>\<open>extract_metadata\<close>: the seven steps run in order inside one \<^verbatim>\<open>try\<close>; whatever exception
  a step raises is logged and replaced by ValueError.
\<close>

definition extract_metadata :: "raw_record \<Rightarrow> log \<times> (exn + paper_metadata)" where
  "extract_metadata paper_data =
     (case validate_title (resolve_title paper_data) of
        Inl e \<Rightarrow> ([(ERROR, ''Error extracting metadata'')], Inl ValueError)
      | Inr t \<Rightarrow>
          (case extract_authors paper_data of
             (l1, au) \<Rightarrow>
               (case extract_doi paper_data of
                  Inl e \<Rightarrow> (l1 @ [(ERROR, ''Error extracting metadata'')], Inl ValueError)
                | Inr d \<Rightarrow>
                    (case extract_year paper_data of
                       (l2, y) \<Rightarrow>
                         (case extract_sample_size paper_data of
                            (l3, n) \<Rightarrow>
                              (case detect_study_type paper_data of
                                 (l4, st) \<Rightarrow>
                                   (case extract_full_text_links paper_data of
                                      (l5, links) \<Rightarrow>
                                        (l1 @ l2 @ l3 @ l4 @ l5,
                                         Inr \<lparr>title = t, authors = au, doi = d, year = y,
                                              sample_size = n, study_type = st,
                                              full_text_links = links\<rparr>))))))))"

section \<open>The aggregation controller (src/review.py)\<close>

text \<open>
  \<^verbatim>\<open>SystematicReview.search_databases\<close> appends \<^verbatim>\<open>{'source': name, 'data': metadata.__dict__}\<close>
  to \<^verbatim>\<open>self.results\<close> for every record that \<^verbatim>\<open>extract_metadata\<close> accepts. Its handlers catch
  ValueError only, so any other exception would leave the loop and the method. The readers
  are collaborators: they catch their own errors and return an empty list or dict, and
  enter the model as functions. A log message that ends in the text of the exception is kept
  up to that text.
\<close>

type_synonym tagged = "string \<times> paper_metadata"

type_synonym review_state = "tagged list \<times> log"

record readers =
  pubmed_search :: "string \<Rightarrow> int \<Rightarrow> string list"
  pubmed_fetch_details :: "string \<Rightarrow> raw_record"
  cochrane_search :: "string \<Rightarrow> int \<Rightarrow> raw_record list"
  clinicaltrials_search :: "string \<Rightarrow> int \<Rightarrow> raw_record list"

fun extract_each :: "string \<Rightarrow> (string \<times> raw_record) list \<Rightarrow> review_state \<Rightarrow> exn + review_state" where
  "extract_each src [] st = Inr st"
| "extract_each src ((msg, article) # rest) (res, lg) =
     (case extract_metadata article of
        (l, Inr metadata) \<Rightarrow> extract_each src rest (res @ [(src, metadata)], lg @ l)
      | (l, Inl e) \<Rightarrow>
          if e = ValueError then extract_each src rest (res, lg @ l @ [(ERROR, msg)])
          else Inl e)"

definition search_databases ::
  "readers \<Rightarrow> string \<Rightarrow> int \<Rightarrow> bool \<Rightarrow> bool \<Rightarrow> review_state \<Rightarrow> exn + review_state" where
  "search_databases rd query max_results include_cochrane include_clinicaltrials st =
     (case st of (res, lg) \<Rightarrow>
      case extract_each ''pubmed''
             (map (\<lambda>pmid. (''Failed to extract metadata for PMID '' @ pmid,
                            pubmed_fetch_details rd pmid))
                  (pubmed_search rd query max_results))
             (res, lg @ [(INFO, ''Searching PubMed...'')]) of
        Inl e \<Rightarrow> Inl e
      | Inr st1 \<Rightarrow>
          (case (if include_cochrane
                 then (case st1 of (res1, lg1) \<Rightarrow>
                         extract_each ''cochrane''
                           (map (\<lambda>article. (''Failed to extract Cochrane metadata'', article))
                                (cochrane_search rd query max_results))
                           (res1, lg1 @ [(INFO, ''Searching Cochrane Library...'')]))
                 else Inr st1) of
             Inl e \<Rightarrow> Inl e
           | Inr st2 \<Rightarrow>
               (if include_clinicaltrials
                then (case st2 of (res2, lg2) \<Rightarrow>
                        extract_each ''clinicaltrials''
                          (map (\<lambda>trial. (''Failed to extract ClinicalTrials metadata'', trial))
                               (clinicaltrials_search rd query max_results))
                          (res2, lg2 @ [(INFO, ''Searching ClinicalTrials.gov...'')]))
                else Inr st2)))"

text \<open>
  What the controller is to produce, in the words of its contract: the records of a source
  that normalise, in order, each tagged with the source; and the entries it logs when it
  skips a record.
\<close>

definition normalized :: "string \<Rightarrow> raw_record list \<Rightarrow> tagged list" where
  "normalized src articles =
     concat (map (\<lambda>a. case snd (extract_metadata a) of Inr m \<Rightarrow> [(src, m)] | Inl e \<Rightarrow> []) articles)"

definition failures :: "raw_record list \<Rightarrow> nat" where
  "failures articles = length (filter (\<lambda>a. isl (snd (extract_metadata a))) articles)"

definition is_skip_entry :: "level \<times> string \<Rightarrow> bool" where
  "is_skip_entry e = (fst e = ERROR \<and> prefix ''Failed to extract '' (snd e))"

section \<open>Data frames\<close>

text \<open>
  Both scorers start with \<^verbatim>\<open>pd.DataFrame(data)\<close> on a list of dicts. The frame has one row
  per dict and one column per key that occurs in some dict; a row without the key holds NaN
  there, which is \<open>None\<close> in \<open>column\<close>. The cells are what the fields of a metadata record
  hold: None, an integer (in the 64-bit range), a string or a list of strings.

  pandas infers NumPy dtypes for such columns (int64, float64 when integers stand beside
  missing values, object otherwise). The nullable dtypes \<^verbatim>\<open>pd.Int64Dtype()\<close> and
  \<^verbatim>\<open>pd.Float64Dtype()\<close> are only ever set on request, and are never equal to a NumPy dtype.
\<close>

datatype cell = CNone | CInt int | CStr string | CList "string list"

type_synonym row = "string \<rightharpoonup> cell"

type_synonym frame = "row list"

datatype dtype = np_int64 | np_float64 | np_object | pd_Int64Dtype | pd_Float64Dtype

definition has_column :: "frame \<Rightarrow> string \<Rightarrow> bool" where
  "has_column df k = list_ex (\<lambda>r. r k \<noteq> None) df"

definition column :: "frame \<Rightarrow> string \<Rightarrow> cell option list" where
  "column df k = map (\<lambda>r. r k) df"

fun notna :: "cell option \<Rightarrow> bool" where
  "notna None = False"
| "notna (Some CNone) = False"
| "notna (Some c) = True"

fun is_int_cell :: "cell option \<Rightarrow> bool" where
  "is_int_cell (Some (CInt n)) = True"
| "is_int_cell c = False"

fun is_object_cell :: "cell option \<Rightarrow> bool" where
  "is_object_cell (Some (CStr s)) = True"
| "is_object_cell (Some (CList xs)) = True"
| "is_object_cell c = False"

definition column_dtype :: "cell option list \<Rightarrow> dtype" where
  "column_dtype cs =
     (if list_ex is_object_cell cs then np_object
      else if list_all is_int_cell cs then np_int64
      else if list_ex is_int_cell cs then np_float64
      else if list_ex (\<lambda>c. c = None) cs then np_float64
      else np_object)"

text \<open>\<^verbatim>\<open>series.notna().mean() * 100\<close>\<close>

definition notna_percent :: "cell option list \<Rightarrow> rat" where
  "notna_percent cs = of_nat (length (filter notna cs)) / of_nat (length cs) * 100"

text \<open>
  \<^verbatim>\<open>series < bound\<close> and the like: a missing value compares False, an integer is compared,
  and a string or a list against an integer raises TypeError.
\<close>

fun cmp_cell :: "(int \<Rightarrow> bool) \<Rightarrow> cell option \<Rightarrow> bool" where
  "cmp_cell p (Some (CInt n)) = p n"
| "cmp_cell p c = False"

fun series_cmp :: "(int \<Rightarrow> bool) \<Rightarrow> cell option list \<Rightarrow> exn + bool list" where
  "series_cmp p [] = Inr []"
| "series_cmp p (c # cs) =
     (if is_object_cell c then Inl TypeError
      else case series_cmp p cs of
             Inl e \<Rightarrow> Inl e
           | Inr bs \<Rightarrow> Inr (cmp_cell p c # bs))"

text \<open>The index of the rows a mask selects: \<^verbatim>\<open>df[mask].index.tolist()\<close>.\<close>

definition flagged :: "bool list \<Rightarrow> nat list" where
  "flagged bs = filter (\<lambda>i. bs ! i) [0 ..< length bs]"

definition invalid_years :: "int \<Rightarrow> int \<Rightarrow> frame \<Rightarrow> exn + nat list" where
  "invalid_years lo current_year df =
     (case series_cmp (\<lambda>y. y < lo \<or> y > current_year) (column df ''year'') of
        Inl e \<Rightarrow> Inl e
      | Inr bs \<Rightarrow> Inr (flagged bs))"

definition invalid_samples :: "frame \<Rightarrow> exn + nat list" where
  "invalid_samples df =
     (case series_cmp (\<lambda>n. n \<le> 0) (column df ''sample_size'') of
        Inl e \<Rightarrow> Inl e
      | Inr bs \<Rightarrow> Inr (flagged bs))"

text \<open>\<^verbatim>\<open>all(isinstance(authors, list) for authors in df['authors'])\<close>\<close>

fun is_list_cell :: "cell option \<Rightarrow> bool" where
  "is_list_cell (Some (CList xs)) = True"
| "is_list_cell c = False"

definition check_author_format :: "frame \<Rightarrow> bool" where
  "check_author_format df =
     (if \<not> has_column df ''authors'' then True else list_all is_list_cell (column df ''authors''))"

text \<open>
  \<^verbatim>\<open>df['doi'].str.match(doi_pattern, na=True).all()\<close>: the \<^verbatim>\<open>.str\<close> accessor exists on object
  columns only (AttributeError otherwise); a string cell is matched at its start, every
  other cell counts as True.
\<close>

fun doi_cell_ok :: "cell option \<Rightarrow> bool" where
  "doi_cell_ok (Some (CStr s)) = re_match DOI_PATTERN s"
| "doi_cell_ok c = True"

definition check_doi_format :: "frame \<Rightarrow> exn + bool" where
  "check_doi_format df =
     (if \<not> has_column df ''doi'' then Inr True
      else if column_dtype (column df ''doi'') \<noteq> np_object then Inl AttributeError
      else Inr (list_all doi_cell_ok (column df ''doi'')))"

definition passed_percent :: "(string \<times> bool) list \<Rightarrow> rat" where
  "passed_percent checks = of_nat (length (filter snd checks)) / of_nat (length checks) * 100"

definition mean_scores :: "(string \<times> rat) list \<Rightarrow> rat" where
  "mean_scores scores = sum_list (map snd scores) / of_nat (length scores)"

definition weighted :: "rat \<Rightarrow> rat \<Rightarrow> rat \<Rightarrow> rat" where
  "weighted c s v = c * (4 / 10) + s * (3 / 10) + v * (3 / 10)"

section \<open>QualityChecker (src/validation/quality\_checker.py)\<close>

text \<open>
  Scores are Python floats in the source; the model computes them as rationals, so the
  weights 0.4 and 0.3 are exactly 4/10 and 3/10. The current year (\<^verbatim>\<open>datetime.now().year\<close>)
  is a parameter.
\<close>

datatype issue =
    Low_completeness string rat
  | Failed_consistency string
  | Invalid_years nat
  | Invalid_samples nat

record quality_metrics =
  completeness_score :: rat
  consistency_score :: rat
  validity_score :: rat
  overall_score :: rat
  issues :: "issue list"

definition default_required_fields :: "string list" where
  "default_required_fields = [''title'', ''authors'', ''year'', ''doi'', ''sample_size'']"

text \<open>\<^verbatim>\<open>self.required_fields = required_fields or [...]\<close>\<close>

definition qc_required_fields :: "string list option \<Rightarrow> string list" where
  "qc_required_fields rf =
     (case rf of
        None \<Rightarrow> default_required_fields
      | Some fs \<Rightarrow> if fs = [] then default_required_fields else fs)"

text \<open>
  \<^verbatim>\<open>_check_completeness\<close> fills a dict keyed by field, so a field listed twice counts once, at
  its first position.
\<close>

definition qc_check_completeness :: "string list \<Rightarrow> frame \<Rightarrow> (string \<times> rat) list \<times> rat" where
  "qc_check_completeness required df =
     (let field_scores =
            map (\<lambda>f. (f, if has_column df f then notna_percent (column df f) else 0))
                (rev (remdups (rev required)))
      in (field_scores, mean_scores field_scores))"

text \<open>\<^verbatim>\<open>df['year'].dtype in [pd.Int64Dtype(), pd.Float64Dtype()]\<close>\<close>

definition check_year_format :: "frame \<Rightarrow> bool" where
  "check_year_format df =
     (if \<not> has_column df ''year'' then True
      else column_dtype (column df ''year'') \<in> set [pd_Int64Dtype, pd_Float64Dtype])"

definition qc_check_consistency :: "frame \<Rightarrow> exn + (string \<times> bool) list \<times> rat" where
  "qc_check_consistency df =
     (case check_doi_format df of
        Inl e \<Rightarrow> Inl e
      | Inr doi_ok \<Rightarrow>
          (let checks = [(''year_format'', check_year_format df),
                         (''author_format'', check_author_format df),
                         (''doi_format'', doi_ok)]
           in Inr (checks, passed_percent checks)))"

text \<open>
  \<^verbatim>\<open>_check_validity\<close>: one issue per kind of violation that occurs at all, ten points off
  per issue, lower bound 1800 for the year.
\<close>

definition qc_check_validity :: "int \<Rightarrow> frame \<Rightarrow> exn + issue list \<times> rat" where
  "qc_check_validity current_year df =
     (case (if has_column df ''year''
            then (case invalid_years 1800 current_year df of
                    Inl e \<Rightarrow> Inl e
                  | Inr ix \<Rightarrow> Inr (if ix \<noteq> [] then [Invalid_years (length ix)] else []))
            else Inr []) of
        Inl e \<Rightarrow> Inl e
      | Inr year_issues \<Rightarrow>
          (case (if has_column df ''sample_size''
                 then (case invalid_samples df of
                         Inl e \<Rightarrow> Inl e
                       | Inr ix \<Rightarrow> Inr (if ix \<noteq> [] then [Invalid_samples (length ix)] else []))
                 else Inr []) of
             Inl e \<Rightarrow> Inl e
           | Inr sample_issues \<Rightarrow>
               (let found = year_issues @ sample_issues
                in Inr (found, max 0 (100 - of_nat (length found) * 10)))))"

definition get_completeness_issues :: "(string \<times> rat) list \<Rightarrow> issue list" where
  "get_completeness_issues scores =
     map (\<lambda>(f, s). Low_completeness f s) (filter (\<lambda>(f, s). s < 90) scores)"

definition get_consistency_issues :: "(string \<times> bool) list \<Rightarrow> issue list" where
  "get_consistency_issues checks =
     map (\<lambda>(c, ok). Failed_consistency c) (filter (\<lambda>(c, ok). \<not> ok) checks)"

text \<open>\<^verbatim>\<open>check_quality\<close> logs and re-raises whatever a check raises.\<close>

definition check_quality :: "string list option \<Rightarrow> int \<Rightarrow> frame \<Rightarrow> log \<times> (exn + quality_metrics)" where
  "check_quality rf current_year data =
     (case qc_check_completeness (qc_required_fields rf) data of
        (field_scores, completeness) \<Rightarrow>
          (case qc_check_consistency data of
             Inl e \<Rightarrow> ([(ERROR, ''Quality check failed'')], Inl e)
           | Inr (checks, consistency) \<Rightarrow>
               (case qc_check_validity current_year data of
                  Inl e \<Rightarrow> ([(ERROR, ''Quality check failed'')], Inl e)
                | Inr (found, validity) \<Rightarrow>
                    ([], Inr \<lparr>completeness_score = completeness,
                              consistency_score = consistency,
                              validity_score = validity,
                              overall_score = weighted completeness consistency validity,
                              issues = get_completeness_issues field_scores @
                                       get_consistency_issues checks @ found\<rparr>))))"

section \<open>DataValidator (src/exporters/validator.py)\<close>

text \<open>
  The validator keeps \<^verbatim>\<open>self.validation_results\<close>, a list of completeness warnings that
  \<^verbatim>\<open>_check_completeness\<close> extends on every call; it is threaded through the model as \<open>vr\<close>.
  The module imports pandas, datetime and logging but not numpy, so the name \<^verbatim>\<open>np\<close> in
  \<^verbatim>\<open>_check_year_consistency\<close> is unbound: evaluating it raises NameError.
\<close>

type_synonym warning = "string \<times> rat \<times> rat"

definition dv_required_fields :: "(string \<times> rat) list" where
  "dv_required_fields =
     [(''title'', 100), (''authors'', 100), (''year'', 90), (''study_type'', 80),
      (''sample_size'', 70)]"

fun dv_completeness_loop :: "frame \<Rightarrow> (string \<times> rat) list \<Rightarrow> (string \<times> rat) list \<times> warning list" where
  "dv_completeness_loop df [] = ([], [])"
| "dv_completeness_loop df ((f, threshold) # rest) =
     (case dv_completeness_loop df rest of
        (c, w) \<Rightarrow>
          if has_column df f
          then (let v = notna_percent (column df f)
                in ((f, v) # c, (if v < threshold then [(f, v, threshold)] else []) @ w))
          else (c, w))"

definition dv_check_completeness :: "frame \<Rightarrow> warning list \<Rightarrow> (string \<times> rat) list \<times> warning list" where
  "dv_check_completeness df vr =
     (case dv_completeness_loop df dv_required_fields of (c, w) \<Rightarrow> (c, vr @ w))"

definition dv_check_year_consistency :: "frame \<Rightarrow> exn + bool" where
  "dv_check_year_consistency df =
     (if \<not> has_column df ''year'' then Inr True else Inl NameError)"

definition dv_check_consistency :: "frame \<Rightarrow> exn + (string \<times> bool) list" where
  "dv_check_consistency df =
     (case dv_check_year_consistency df of
        Inl e \<Rightarrow> Inl e
      | Inr years_ok \<Rightarrow>
          (case check_doi_format df of
             Inl e \<Rightarrow> Inl e
           | Inr doi_ok \<Rightarrow>
               Inr [(''valid_years'', years_ok),
                    (''author_format'', check_author_format df),
                    (''doi_format'', doi_ok)]))"

text \<open>\<^verbatim>\<open>_check_validity\<close>: per field, the index of every violating row; lower bound 1900.\<close>

definition dv_check_validity :: "int \<Rightarrow> frame \<Rightarrow> exn + (string \<times> nat list) list" where
  "dv_check_validity current_year df =
     (case (if has_column df ''year''
            then (case invalid_years 1900 current_year df of
                    Inl e \<Rightarrow> Inl e
                  | Inr ix \<Rightarrow> Inr [(''year'', ix)])
            else Inr []) of
        Inl e \<Rightarrow> Inl e
      | Inr year_issues \<Rightarrow>
          (case (if has_column df ''sample_size''
                 then (case invalid_samples df of
                         Inl e \<Rightarrow> Inl e
                       | Inr ix \<Rightarrow> Inr [(''sample_size'', ix)])
                 else Inr []) of
             Inl e \<Rightarrow> Inl e
           | Inr sample_issues \<Rightarrow> Inr (year_issues @ sample_issues)))"

text \<open>The three scores; a division by a length of zero raises ZeroDivisionError.\<close>

definition dv_completeness_score :: "frame \<Rightarrow> warning list \<Rightarrow> (exn + rat) \<times> warning list" where
  "dv_completeness_score df vr =
     (case dv_check_completeness df vr of
        (c, vr') \<Rightarrow> (if length c = 0 then Inl ZeroDivisionError else Inr (mean_scores c), vr'))"

definition dv_consistency_score :: "frame \<Rightarrow> exn + rat" where
  "dv_consistency_score df =
     (case dv_check_consistency df of
        Inl e \<Rightarrow> Inl e
      | Inr checks \<Rightarrow> Inr (passed_percent checks))"

definition dv_validity_score :: "int \<Rightarrow> frame \<Rightarrow> exn + rat" where
  "dv_validity_score current_year df =
     (case dv_check_validity current_year df of
        Inl e \<Rightarrow> Inl e
      | Inr found \<Rightarrow>
          (let total_issues = sum_list (map (\<lambda>(f, ix). length ix) found)
           in if length df = 0 then Inl ZeroDivisionError
              else Inr (max 0 (100 - of_nat total_issues / of_nat (length df) * 100))))"

definition dv_calculate_quality_score :: "int \<Rightarrow> frame \<Rightarrow> warning list \<Rightarrow> (exn + rat) \<times> warning list" where
  "dv_calculate_quality_score current_year df vr =
     (case dv_completeness_score df vr of
        (Inl e, vr') \<Rightarrow> (Inl e, vr')
      | (Inr c, vr') \<Rightarrow>
          (case dv_consistency_score df of
             Inl e \<Rightarrow> (Inl e, vr')
           | Inr s \<Rightarrow>
               (case dv_validity_score current_year df of
                  Inl e \<Rightarrow> (Inl e, vr')
                | Inr v \<Rightarrow> (Inr (weighted c s v), vr'))))"

record validation_summary =
  quality_score :: rat
  total_issues :: nat

record validation =
  completeness :: "(string \<times> rat) list"
  consistency :: "(string \<times> bool) list"
  validity :: "(string \<times> nat list) list"
  summary :: validation_summary

text \<open>
  \<^verbatim>\<open>validate_all\<close> returns the four results, or the empty dict \<^verbatim>\<open>{}\<close> (here \<open>Empty_dict\<close>) when
  any check raises; the date of the summary is left out.
\<close>

datatype validate_result = Empty_dict | Results validation

definition validate_all :: "int \<Rightarrow> frame \<Rightarrow> warning list \<Rightarrow> log \<times> validate_result \<times> warning list" where
  "validate_all current_year df vr =
     (case dv_check_completeness df vr of
        (c, vr1) \<Rightarrow>
          (case dv_check_consistency df of
             Inl e \<Rightarrow> ([(ERROR, ''Validation failed'')], Empty_dict, vr1)
           | Inr checks \<Rightarrow>
               (case dv_check_validity current_year df of
                  Inl e \<Rightarrow> ([(ERROR, ''Validation failed'')], Empty_dict, vr1)
                | Inr found \<Rightarrow>
                    (case dv_calculate_quality_score current_year df vr1 of
                       (Inl e, vr2) \<Rightarrow> ([(ERROR, ''Validation failed'')], Empty_dict, vr2)
                     | (Inr q, vr2) \<Rightarrow>
                         ([], Results \<lparr>completeness = c, consistency = checks, validity = found,
                                       summary = \<lparr>quality_score = q,
                                                  total_issues = length vr2\<rparr>\<rparr>, vr2)))))"


section \<open>The scoring rules as the specification words them\<close>

text \<open>
  The validity rule of the specification: a record is flagged when its year lies outside
  the range from the lower bound to the current year, or when its sample size is not
  positive; the score is 100 minus the percentage of flagged records, and not below 0.
\<close>

definition year_flagged :: "int \<Rightarrow> int \<Rightarrow> row \<Rightarrow> bool" where
  "year_flagged lo current_year r =
     (case r ''year'' of Some (CInt y) \<Rightarrow> y < lo \<or> y > current_year | _ \<Rightarrow> False)"

definition sample_flagged :: "row \<Rightarrow> bool" where
  "sample_flagged r = (case r ''sample_size'' of Some (CInt n) \<Rightarrow> n \<le> 0 | _ \<Rightarrow> False)"

definition claimed_validity :: "int \<Rightarrow> int \<Rightarrow> frame \<Rightarrow> rat" where
  "claimed_validity lo current_year df =
     max 0 (100 - of_nat (length (filter (\<lambda>r. year_flagged lo current_year r \<or> sample_flagged r) df))
                    / of_nat (length df) * 100)"

text \<open>
  A record with every field present and valid: a non-empty title, a non-empty list of
  authors, an integer year in range, a DOI that conforms to the pattern, and a positive
  sample size.
\<close>

definition fully_valid :: "int \<Rightarrow> row \<Rightarrow> bool" where
  "fully_valid current_year r =
     ((case r ''title'' of Some (CStr t) \<Rightarrow> t \<noteq> [] | _ \<Rightarrow> False) \<and>
      (case r ''authors'' of Some (CList a) \<Rightarrow> a \<noteq> [] | _ \<Rightarrow> False) \<and>
      (case r ''year'' of Some (CInt y) \<Rightarrow> 1800 \<le> y \<and> y \<le> current_year | _ \<Rightarrow> False) \<and>
      (case r ''doi'' of Some (CStr d) \<Rightarrow> re_match DOI_PATTERN d | _ \<Rightarrow> False) \<and>
      (case r ''sample_size'' of Some (CInt n) \<Rightarrow> 0 < n | _ \<Rightarrow> False))"

section \<open>The tests of the repository on the model\<close>

text \<open>
  The assertions of \<^verbatim>\<open>tests/test_paper_data.py\<close> on the sub-extractions, and the examples
  the specification lists with them, hold of the model.
\<close>

lemma test_validate_title:
  "validate_title (PStr ''Valid Title'') = Inr ''Valid Title''"
  "validate_title (PStr []) = Inl ValueError"
  "validate_title (PStr ''  '') = Inl ValueError"
  by code_simp+

lemma test_extract_authors:
  "snd (extract_authors [''AU'' \<mapsto> PList [''Smith J'', ''Johnson M''],
                         ''FAU'' \<mapsto> PList [''Smith, John'', ''Johnson, Mary'']])
     = [''Smith J'', ''Johnson M'']"
  by code_simp

lemma test_extract_doi:
  "extract_doi [''DOI'' \<mapsto> PStr ''10.1234/example.12345''] = Inr (Some ''10.1234/example.12345'')"
  "extract_doi [''DOI'' \<mapsto> PStr ''invalid-doi''] = Inr None"
  by code_simp+

lemma test_extract_year:
  "snd (extract_year [''DP'' \<mapsto> PStr ''2023'']) = Some 2023"
  "snd (extract_year [''DP'' \<mapsto> PStr ''2023/01/15'']) = Some 2023"
  "snd (extract_year [''DP'' \<mapsto> PStr ''2023-01-15'']) = Some 2023"
  "snd (extract_year [''DP'' \<mapsto> PStr ''2023 Jan 15'']) = Some 2023"
  "snd (extract_year [''DP'' \<mapsto> PStr ''invalid'']) = None"
  by code_simp+

lemma test_extract_sample_size:
  "snd (extract_sample_size [''AB'' \<mapsto> PStr ''This study included n=500 participants'']) = Some 500"
  "snd (extract_sample_size [''AB'' \<mapsto> PStr ''sample size of 300'']) = Some 300"
  "snd (extract_sample_size [''AB'' \<mapsto> PStr ''enrolled 250 participants'']) = Some 250"
  by code_simp+

lemma test_detect_study_type:
  "snd (detect_study_type [''TI'' \<mapsto> PStr ''A Randomized Controlled Trial'']) = Some ''RCT''"
  "snd (detect_study_type [''TI'' \<mapsto> PStr ''A Meta-Analysis'']) = Some ''Meta-Analysis''"
  "snd (detect_study_type [''TI'' \<mapsto> PStr ''A Study'']) = None"
  by code_simp+

lemma test_extract_full_text_links:
  "size (snd (extract_full_text_links [''DOI'' \<mapsto> PStr ''10.1234/example.12345'',
                                       ''LID'' \<mapsto> PStr ''https://example.com/paper''])) = 2"
  "''https://doi.org/10.1234/example.12345'' \<in>#
     snd (extract_full_text_links [''DOI'' \<mapsto> PStr ''10.1234/example.12345'',
                                   ''LID'' \<mapsto> PStr ''https://example.com/paper''])"
  by code_simp+

section \<open>Columns of a frame\<close>

lemma has_column_iff: "has_column df k \<longleftrightarrow> (\<exists>r \<in> set df. \<exists>c. r k = Some c)"
  by (auto simp: has_column_def list_ex_iff)

section \<open>Title, optional fields and the DOI pattern\<close>

lemma validate_title_Inr_iff:
  "validate_title v = Inr t \<longleftrightarrow> (\<exists>s. v = PStr s \<and> 3 \<le> length (strip s) \<and> t = strip s)"
proof (cases v)
  case (PStr s)
  have "s = [] \<Longrightarrow> strip s = []" by (simp add: strip_def)
  then show ?thesis by (auto simp: PStr validate_title_def)
next
  case (PList xs)
  then show ?thesis by (simp add: validate_title_def)
qed

lemma extract_metadata_result:
  "snd (extract_metadata d) =
     (case validate_title (resolve_title d) of
        Inl e \<Rightarrow> Inl ValueError
      | Inr t \<Rightarrow>
          (case extract_doi d of
             Inl e \<Rightarrow> Inl ValueError
           | Inr x \<Rightarrow>
               Inr \<lparr>title = t, authors = snd (extract_authors d), doi = x,
                    year = snd (extract_year d), sample_size = snd (extract_sample_size d),
                    study_type = snd (detect_study_type d),
                    full_text_links = snd (extract_full_text_links d)\<rparr>))"
  by (simp add: extract_metadata_def split: sum.splits prod.splits)

lemma extract_doi_raises_iff:
  "isl (extract_doi d) \<longleftrightarrow>
     (\<exists>xs. get_default d ''DOI'' (get_default d ''doi'' (PStr [])) = PList xs \<and> xs \<noteq> [])"
  by (cases "get_default d ''DOI'' (get_default d ''doi'' (PStr []))")
     (simp_all add: extract_doi_def Let_def)

lemma extract_metadata_raises_ValueError:
  "snd (extract_metadata d) = Inl e \<Longrightarrow> e = ValueError"
  by (auto simp: extract_metadata_result split: sum.splits)

lemma extract_metadata_title_parts:
  "((\<forall>s. resolve_title d = PStr s \<longrightarrow> length (strip s) < 3) \<longrightarrow>
        snd (extract_metadata d) = Inl ValueError)
 \<and> (\<forall>m. snd (extract_metadata d) = Inr m \<longrightarrow>
        (\<exists>s. resolve_title d = PStr s \<and> 3 \<le> length (strip s) \<and> title m = strip s))"
proof (intro conjI allI impI)
  assume a: "\<forall>s. resolve_title d = PStr s \<longrightarrow> length (strip s) < 3"
  have "\<not> (\<exists>t. validate_title (resolve_title d) = Inr t)"
    using a by (auto simp: validate_title_Inr_iff)
  then obtain e where "validate_title (resolve_title d) = Inl e"
    by (cases "validate_title (resolve_title d)") auto
  then show "snd (extract_metadata d) = Inl ValueError"
    by (simp add: extract_metadata_result)
next
  fix m
  assume a: "snd (extract_metadata d) = Inr m"
  then obtain t where t: "validate_title (resolve_title d) = Inr t" and "title m = t"
    by (auto simp: extract_metadata_result split: sum.splits)
  then show "\<exists>s. resolve_title d = PStr s \<and> 3 \<le> length (strip s) \<and> title m = strip s"
    by (auto simp: validate_title_Inr_iff)
qed

text \<open>
  Claim C1, at a record whose title is usable: the title resolves to a string of sixteen
  characters after trimming, yet extract_metadata fails with ValueError, because the DOI
  field holds a list and the DOI lookup, which nothing guards, raises on it.
\<close>

theorem extract_metadata_valid_title_rejected:
  "resolve_title [''TI'' \<mapsto> PStr ''  Machine Learning  '',
                  ''DOI'' \<mapsto> PList [''10.1234/example.12345'']] = PStr ''  Machine Learning  ''
 \<and> strip ''  Machine Learning  '' = ''Machine Learning''
 \<and> 3 \<le> length (strip ''  Machine Learning  '')
 \<and> snd (extract_metadata [''TI'' \<mapsto> PStr ''  Machine Learning  '',
                            ''DOI'' \<mapsto> PList [''10.1234/example.12345'']]) = Inl ValueError"
proof -
  have s: "strip ''  Machine Learning  '' = ''Machine Learning''"
    by code_simp
  have r: "resolve_title [''TI'' \<mapsto> PStr ''  Machine Learning  '',
                  ''DOI'' \<mapsto> PList [''10.1234/example.12345'']] = PStr ''  Machine Learning  ''"
    by (simp add: resolve_title_def get_default_def)
  have d: "extract_doi [''TI'' \<mapsto> PStr ''  Machine Learning  '',
                  ''DOI'' \<mapsto> PList [''10.1234/example.12345'']] = Inl TypeError"
    by (simp add: extract_doi_def get_default_def)
  from r s have v: "validate_title (resolve_title [''TI'' \<mapsto> PStr ''  Machine Learning  '',
                  ''DOI'' \<mapsto> PList [''10.1234/example.12345'']]) = Inr ''Machine Learning''"
    by (simp add: validate_title_Inr_iff)
  from v d have "snd (extract_metadata [''TI'' \<mapsto> PStr ''  Machine Learning  '',
                            ''DOI'' \<mapsto> PList [''10.1234/example.12345'']]) = Inl ValueError"
    by (simp add: extract_metadata_result)
  with r s show ?thesis by simp
qed

text \<open>
  Claim C2, at a record with a usable title whose DOI field is a list of strings: the DOI
  lookup raises TypeError, nothing inside \<^verbatim>\<open>_extract_doi\<close> catches it, and extract_metadata
  fails with ValueError although only an optional field could not be resolved. A list in
  a date field, whose lookup is guarded, leaves the year absent and the record accepted.
\<close>

theorem extract_metadata_doi_list_raises:
  "validate_title (resolve_title [''title'' \<mapsto> PStr ''Valid Title'',
                                  ''DOI'' \<mapsto> PList [''10.1234/abc'']]) = Inr ''Valid Title''
 \<and> extract_doi [''title'' \<mapsto> PStr ''Valid Title'', ''DOI'' \<mapsto> PList [''10.1234/abc'']]
      = Inl TypeError
 \<and> extract_metadata [''title'' \<mapsto> PStr ''Valid Title'', ''DOI'' \<mapsto> PList [''10.1234/abc'']]
      = ([(WARNING, ''No valid authors found''), (ERROR, ''Error extracting metadata'')],
         Inl ValueError)
 \<and> extract_metadata [''title'' \<mapsto> PStr ''Valid Title'', ''DP'' \<mapsto> PList [''2023'']]
      = ([(WARNING, ''No valid authors found''), (WARNING, ''Failed to extract year'')],
         Inr \<lparr>title = ''Valid Title'', authors = [], doi = None, year = None,
              sample_size = None, study_type = None, full_text_links = {#}\<rparr>)"
  by code_simp

text \<open>
  Claim C7, at DOI fields that hold no DOI of the form 10.NNNN/suffix: the dot of the
  pattern matches any character, so the lookup returns a value without the dot after 10.
\<close>

theorem extract_doi_unescaped_dot:
  "extract_doi [''DOI'' \<mapsto> PStr ''10X1234/abc''] = Inr (Some ''10X1234/abc'')
 \<and> extract_doi [''DOI'' \<mapsto> PStr ''record 1012345/2020''] = Inr (Some ''1012345/2020'')"
  by code_simp

section \<open>Full-text links\<close>

lemma atom_matches_length: "r \<in> set (atom_matches a s) \<Longrightarrow> length r \<le> length s"
  by (cases a) (auto simp: Let_def split: list.splits if_splits)

lemma seq_matches_length: "r \<in> set (seq_matches p s) \<Longrightarrow> length r \<le> length s"
proof (induction p arbitrary: s)
  case Nil
  then show ?case by simp
next
  case (Cons a p)
  then obtain s' where "s' \<in> set (atom_matches a s)" "r \<in> set (seq_matches p s')"
    by auto
  then show ?case
    using Cons.IH [of s'] atom_matches_length [of s' a s] by simp
qed

lemma doi_match_consumes:
  assumes "r \<in> set (seq_matches DOI_PATTERN s)"
  shows "length r < length s"
proof -
  from assms obtain s' where s': "s' \<in> set (atom_matches (Lit ''10'') s)"
    and r: "r \<in> set (seq_matches (tl DOI_PATTERN) s')"
    by (auto simp: DOI_PATTERN_def)
  from s' have p: "prefix ''10'' s" and e: "s' = drop (length ''10'') s"
    by (auto split: if_splits)
  from p have "length ''10'' \<le> length s"
    by (rule prefix_length_le)
  with e have "length s' < length s"
    by simp
  with seq_matches_length [OF r] show ?thesis by simp
qed

lemma re_search_doi_nonempty: "re_search DOI_PATTERN s = Some m \<Longrightarrow> m \<noteq> []"
proof (induction s)
  case Nil
  then show ?case
    using doi_match_consumes [of _ "[]"] by (auto split: list.splits)
next
  case (Cons c cs)
  show ?case
  proof (cases "seq_matches DOI_PATTERN (c # cs)")
    case Nil
    with Cons show ?thesis by simp
  next
    case (Cons r rs)
    then have "length r < length (c # cs)"
      using doi_match_consumes [of r "c # cs"] by simp
    with Cons Cons.prems show ?thesis by auto
  qed
qed

lemma extract_doi_nonempty: "extract_doi d = Inr (Some x) \<Longrightarrow> x \<noteq> []"
  by (auto simp: extract_doi_def Let_def re_search_doi_nonempty split: if_splits pyval.splits)

lemma links_cases:
  "snd (extract_full_text_links d) =
     (case extract_doi d of
        Inr (Some x) \<Rightarrow>
          list_of_set (collect_urls d [''LID'', ''OUR'', ''full_text_url''] @ [''https://doi.org/'' @ x])
      | _ \<Rightarrow> list_of_set (collect_urls d [''LID'', ''OUR'', ''full_text_url'']))"
  by (auto simp: extract_full_text_links_def Let_def extract_doi_nonempty
           split: sum.splits option.splits)

lemma count_list_of_set: "count (list_of_set xs) u = (if u \<in> set xs then 1 else 0)"
proof -
  have "distinct (remdups xs)" by simp
  then have "count (mset (remdups xs)) u = (if u \<in> set (remdups xs) then 1 else 0)"
    by (simp only: distinct_count_atmost_1)
  then show ?thesis by (simp add: list_of_set_def)
qed

lemma set_list_of_set: "set_mset (list_of_set xs) = set xs"
  by (simp add: list_of_set_def)

text \<open>
  Claim C6. For every raw record no link occurs twice among the full-text links. When a
  DOI was resolved, the link \<^verbatim>\<open>https://doi.org/\<close> followed by that DOI occurs exactly once, and
  the links are the URLs found in the three link fields and this one; when no DOI was
  resolved, the links are the URLs found in the three link fields and nothing else. The
  links and the DOI of a record that extract_metadata returns are these.
\<close>

theorem full_text_links_dedup_doi:
  "(\<forall>u. count (snd (extract_full_text_links d)) u \<le> 1)
 \<and> (\<forall>x. extract_doi d = Inr (Some x) \<longrightarrow>
        count (snd (extract_full_text_links d)) (''https://doi.org/'' @ x) = 1 \<and>
        set_mset (snd (extract_full_text_links d)) =
          set (collect_urls d [''LID'', ''OUR'', ''full_text_url'']) \<union> {''https://doi.org/'' @ x})
 \<and> ((\<forall>x. extract_doi d \<noteq> Inr (Some x)) \<longrightarrow>
        set_mset (snd (extract_full_text_links d)) =
          set (collect_urls d [''LID'', ''OUR'', ''full_text_url'']))
 \<and> (\<forall>m. snd (extract_metadata d) = Inr m \<longrightarrow>
        full_text_links m = snd (extract_full_text_links d) \<and> extract_doi d = Inr (doi m))"
proof (intro conjI allI impI)
  fix u
  show "count (snd (extract_full_text_links d)) u \<le> 1"
    by (simp add: links_cases count_list_of_set split: sum.splits option.splits)
next
  fix x assume x: "extract_doi d = Inr (Some x)"
  then have l: "snd (extract_full_text_links d) =
      list_of_set (collect_urls d [''LID'', ''OUR'', ''full_text_url''] @ [''https://doi.org/'' @ x])"
    by (simp add: links_cases)
  show "count (snd (extract_full_text_links d)) (''https://doi.org/'' @ x) = 1"
    unfolding l by (simp only: count_list_of_set) simp
  show "set_mset (snd (extract_full_text_links d)) =
          set (collect_urls d [''LID'', ''OUR'', ''full_text_url'']) \<union> {''https://doi.org/'' @ x}"
    unfolding l by (simp only: set_list_of_set) simp
next
  assume "\<forall>x. extract_doi d \<noteq> Inr (Some x)"
  then show "set_mset (snd (extract_full_text_links d)) =
      set (collect_urls d [''LID'', ''OUR'', ''full_text_url''])"
    by (simp add: links_cases set_list_of_set split: sum.splits option.splits)
next
  fix m assume "snd (extract_metadata d) = Inr m"
  then show "full_text_links m = snd (extract_full_text_links d)" and "extract_doi d = Inr (doi m)"
    by (auto simp: extract_metadata_result split: sum.splits)
qed

theorem full_text_links_dedup_doi_witness:
  "extract_doi [''DOI'' \<mapsto> PStr ''10.1234/example.12345'',
                ''LID'' \<mapsto> PList [''https://example.com/paper'', ''https://example.com/paper'']]
     = Inr (Some ''10.1234/example.12345'')
 \<and> count (snd (extract_full_text_links [''DOI'' \<mapsto> PStr ''10.1234/example.12345'',
         ''LID'' \<mapsto> PList [''https://example.com/paper'', ''https://example.com/paper'']]))
      ''https://doi.org/10.1234/example.12345'' = 1
 \<and> count (snd (extract_full_text_links [''DOI'' \<mapsto> PStr ''10.1234/example.12345'',
         ''LID'' \<mapsto> PList [''https://example.com/paper'', ''https://example.com/paper'']]))
      ''https://example.com/paper'' = 1
 \<and> set_mset (snd (extract_full_text_links [''DOI'' \<mapsto> PStr ''10.1234/example.12345'',
         ''LID'' \<mapsto> PList [''https://example.com/paper'', ''https://example.com/paper'']]))
     = {''https://example.com/paper'', ''https://doi.org/10.1234/example.12345''}
 \<and> extract_doi [''LID'' \<mapsto> PStr ''https://example.com/paper''] = Inr None
 \<and> set_mset (snd (extract_full_text_links [''LID'' \<mapsto> PStr ''https://example.com/paper'']))
     = {''https://example.com/paper''}"
proof -
  let ?d1 = "[''DOI'' \<mapsto> PStr ''10.1234/example.12345'',
              ''LID'' \<mapsto> PList [''https://example.com/paper'', ''https://example.com/paper'']]"
  let ?d2 = "[''LID'' \<mapsto> PStr ''https://example.com/paper'']"
  have a1: "extract_doi ?d1 = Inr (Some ''10.1234/example.12345'')"
    by code_simp
  have a2: "extract_doi ?d2 = Inr None"
    by (simp add: extract_doi_def get_default_def)
  then have a2': "\<forall>x. extract_doi ?d2 \<noteq> Inr (Some x)"
    by simp
  have c1: "collect_urls ?d1 [''LID'', ''OUR'', ''full_text_url'']
     = [''https://example.com/paper'', ''https://example.com/paper'']"
    by code_simp
  have c2: "collect_urls ?d2 [''LID'', ''OUR'', ''full_text_url''] = [''https://example.com/paper'']"
    by code_simp
  have e: "''https://doi.org/'' @ ''10.1234/example.12345'' = ''https://doi.org/10.1234/example.12345''"
    by simp
  note t1 = full_text_links_dedup_doi [of ?d1]
  note t2 = full_text_links_dedup_doi [of ?d2]
  from t1 a1 have n1: "count (snd (extract_full_text_links ?d1))
      (''https://doi.org/'' @ ''10.1234/example.12345'') = 1"
    and s1: "set_mset (snd (extract_full_text_links ?d1)) =
      set (collect_urls ?d1 [''LID'', ''OUR'', ''full_text_url''])
        \<union> {''https://doi.org/'' @ ''10.1234/example.12345''}"
    by blast+
  from t1 have le: "count (snd (extract_full_text_links ?d1)) ''https://example.com/paper'' \<le> 1"
    by blast
  from s1 have m1: "set_mset (snd (extract_full_text_links ?d1))
     = {''https://example.com/paper'', ''https://doi.org/10.1234/example.12345''}"
    by (simp only: c1 e) auto
  then have "''https://example.com/paper'' \<in># snd (extract_full_text_links ?d1)"
    by simp
  then have "0 < count (snd (extract_full_text_links ?d1)) ''https://example.com/paper''"
    by (simp only: count_greater_zero_iff)
  with le have k1: "count (snd (extract_full_text_links ?d1)) ''https://example.com/paper'' = 1"
    by linarith
  from t2 a2' have "set_mset (snd (extract_full_text_links ?d2)) =
      set (collect_urls ?d2 [''LID'', ''OUR'', ''full_text_url''])"
    by blast
  then have m2: "set_mset (snd (extract_full_text_links ?d2)) = {''https://example.com/paper''}"
    by (simp only: c2) simp
  from n1 have n1': "count (snd (extract_full_text_links ?d1))
      ''https://doi.org/10.1234/example.12345'' = 1"
    by (simp only: e)
  from a1 n1' k1 m1 a2 m2 show ?thesis
    by (intro conjI)
qed

section \<open>The controller skips records that fail\<close>

lemma extract_metadata_log:
  assumes "e \<in> set (fst (extract_metadata a))"
  shows "fst e = WARNING \<or> e = (ERROR, ''Error extracting metadata'')"
proof -
  have au: "\<And>l r x. extract_authors a = (l, r) \<Longrightarrow> x \<in> set l \<Longrightarrow> fst x = WARNING"
    by (auto simp: extract_authors_def Let_def split: if_splits)
  have yr: "\<And>l r x. extract_year a = (l, r) \<Longrightarrow> x \<in> set l \<Longrightarrow> fst x = WARNING"
    by (auto simp: extract_year_def split: sum.splits)
  have sz: "\<And>l r x. extract_sample_size a = (l, r) \<Longrightarrow> x \<in> set l \<Longrightarrow> fst x = WARNING"
    by (auto simp: extract_sample_size_def split: sum.splits)
  have st: "\<And>l r x. detect_study_type a = (l, r) \<Longrightarrow> x \<in> set l \<Longrightarrow> fst x = WARNING"
    by (auto simp: detect_study_type_def split: sum.splits)
  have lk: "\<And>l r x. extract_full_text_links a = (l, r) \<Longrightarrow> x \<in> set l \<Longrightarrow> fst x = WARNING"
    by (auto simp: extract_full_text_links_def Let_def split: sum.splits option.splits if_splits)
  from assms show ?thesis
    unfolding extract_metadata_def
    by (auto split: sum.splits prod.splits dest: au yr sz st lk)
qed

lemma extract_metadata_no_skip: "filter is_skip_entry (fst (extract_metadata a)) = []"
proof -
  have "\<not> is_skip_entry e" if "e \<in> set (fst (extract_metadata a))" for e
    using extract_metadata_log [OF that] by (auto simp: is_skip_entry_def)
  then show ?thesis by (simp add: filter_empty_conv)
qed

lemma extract_each_result:
  assumes "\<forall>item \<in> set items. prefix ''Failed to extract '' (fst item)"
  shows "\<exists>lg'. extract_each src items (res, lg) = Inr (res @ normalized src (map snd items), lg')
           \<and> length (filter is_skip_entry lg') =
               length (filter is_skip_entry lg) + failures (map snd items)"
  using assms
proof (induction items arbitrary: res lg)
  case Nil
  show ?case by (simp add: normalized_def failures_def)
next
  case (Cons item items)
  obtain msg article where item: "item = (msg, article)" by (cases item)
  obtain l r where em: "extract_metadata article = (l, r)" by (cases "extract_metadata article")
  have l: "filter is_skip_entry l = []"
    using extract_metadata_no_skip [of article] by (simp add: em)
  from Cons.prems have msg: "is_skip_entry (ERROR, msg)"
    by (simp add: item is_skip_entry_def)
  from Cons.prems have rest: "\<forall>item \<in> set items. prefix ''Failed to extract '' (fst item)"
    by simp
  show ?case
  proof (cases r)
    case (Inr m)
    from Cons.IH [OF rest, of "res @ [(src, m)]" "lg @ l"]
    show ?thesis
      by (simp add: item em Inr l normalized_def failures_def)
  next
    case (Inl e)
    then have "snd (extract_metadata article) = Inl e" by (simp add: em)
    then have e: "e = ValueError" by (rule extract_metadata_raises_ValueError)
    from Cons.IH [OF rest, of res "lg @ l @ [(ERROR, msg)]"]
    show ?thesis
      by (simp add: item em Inl e l msg normalized_def failures_def)
  qed
qed

text \<open>
  Claim C9. In every run of the controller a record whose normalisation fails is logged and
  skipped, and the run goes on: \<^verbatim>\<open>search_databases\<close> always returns, its result collection is
  the old one followed by exactly the records that normalise, in the order they were
  processed (PubMed, then Cochrane, then ClinicalTrials.gov, when enabled), each tagged with
  the name of its source, and the log gains one error entry of the controller per record
  that failed.
\<close>

theorem search_databases_skips_failures:
  "\<exists>lg'. search_databases rd query max_results include_cochrane include_clinicaltrials (res, lg) =
       Inr (res
            @ normalized ''pubmed''
                (map (pubmed_fetch_details rd) (pubmed_search rd query max_results))
            @ (if include_cochrane
               then normalized ''cochrane'' (cochrane_search rd query max_results) else [])
            @ (if include_clinicaltrials
               then normalized ''clinicaltrials'' (clinicaltrials_search rd query max_results)
               else []),
            lg')
     \<and> length (filter is_skip_entry lg') =
         length (filter is_skip_entry lg)
         + failures (map (pubmed_fetch_details rd) (pubmed_search rd query max_results))
         + (if include_cochrane then failures (cochrane_search rd query max_results) else 0)
         + (if include_clinicaltrials
            then failures (clinicaltrials_search rd query max_results) else 0)"
proof -
  let ?pm = "map (\<lambda>pmid. (''Failed to extract metadata for PMID '' @ pmid,
                            pubmed_fetch_details rd pmid))
                 (pubmed_search rd query max_results)"
  let ?co = "map (\<lambda>article. (''Failed to extract Cochrane metadata'', article))
                 (cochrane_search rd query max_results)"
  let ?ct = "map (\<lambda>trial. (''Failed to extract ClinicalTrials metadata'', trial))
                 (clinicaltrials_search rd query max_results)"
  have info: "\<And>s. \<not> is_skip_entry (INFO, s)"
    by (simp add: is_skip_entry_def)
  have pm: "\<forall>item \<in> set ?pm. prefix ''Failed to extract '' (fst item)" by auto
  have co: "\<forall>item \<in> set ?co. prefix ''Failed to extract '' (fst item)" by auto
  have ct: "\<forall>item \<in> set ?ct. prefix ''Failed to extract '' (fst item)" by auto
  have spm: "map snd ?pm = map (pubmed_fetch_details rd) (pubmed_search rd query max_results)"
    by (simp add: comp_def)
  have sco: "map snd ?co = cochrane_search rd query max_results"
    by (simp add: comp_def)
  have sct: "map snd ?ct = clinicaltrials_search rd query max_results"
    by (simp add: comp_def)
  from extract_each_result [OF pm, of "''pubmed''" res "lg @ [(INFO, ''Searching PubMed...'')]"]
  obtain lg1 where s1: "extract_each ''pubmed'' ?pm (res, lg @ [(INFO, ''Searching PubMed...'')])
        = Inr (res @ normalized ''pubmed'' (map snd ?pm), lg1)"
    and n1: "length (filter is_skip_entry lg1) =
        length (filter is_skip_entry lg) + failures (map snd ?pm)"
    by (auto simp: info)
  let ?r1 = "res @ normalized ''pubmed'' (map snd ?pm)"
  obtain r2 lg2 where s2: "(if include_cochrane
         then extract_each ''cochrane'' ?co (?r1, lg1 @ [(INFO, ''Searching Cochrane Library...'')])
         else Inr (?r1, lg1)) = Inr (r2, lg2)"
    and r2: "r2 = ?r1 @ (if include_cochrane then normalized ''cochrane'' (map snd ?co) else [])"
    and n2: "length (filter is_skip_entry lg2) = length (filter is_skip_entry lg1)
         + (if include_cochrane then failures (map snd ?co) else 0)"
  proof (cases include_cochrane)
    case True
    from extract_each_result [OF co, of "''cochrane''" ?r1 "lg1 @ [(INFO, ''Searching Cochrane Library...'')]"]
    show ?thesis using that True by (auto simp: info)
  next
    case False
    then show ?thesis using that by simp
  qed
  obtain r3 lg3 where s3: "(if include_clinicaltrials
         then extract_each ''clinicaltrials'' ?ct (r2, lg2 @ [(INFO, ''Searching ClinicalTrials.gov...'')])
         else Inr (r2, lg2)) = Inr (r3, lg3)"
    and r3: "r3 = r2 @ (if include_clinicaltrials then normalized ''clinicaltrials'' (map snd ?ct) else [])"
    and n3: "length (filter is_skip_entry lg3) = length (filter is_skip_entry lg2)
         + (if include_clinicaltrials then failures (map snd ?ct) else 0)"
  proof (cases include_clinicaltrials)
    case True
    from extract_each_result [OF ct, of "''clinicaltrials''" r2 "lg2 @ [(INFO, ''Searching ClinicalTrials.gov...'')]"]
    show ?thesis using that True by (auto simp: info)
  next
    case False
    then show ?thesis using that by simp
  qed
  have "search_databases rd query max_results include_cochrane include_clinicaltrials (res, lg)
      = Inr (r3, lg3)"
    unfolding search_databases_def
    by (simp only: prod.case sum.case s1 s2 s3)
  with r2 r3 n1 n2 n3 show ?thesis
    by (simp only: spm sco sct) auto
qed

theorem search_databases_skips_failures_witness:
  "\<exists>lg'. search_databases
          \<lparr>pubmed_search = (\<lambda>q n. [''1'', ''2'', ''3'']),
           pubmed_fetch_details =
             (\<lambda>p. if p = ''1'' then [''TI'' \<mapsto> PStr ''A randomized trial'',
                                       ''DOI'' \<mapsto> PStr ''10.1234/x'',
                                       ''DP'' \<mapsto> PStr ''2023'',
                                       ''AB'' \<mapsto> PStr ''we studied n=500 adults'']
                  else if p = ''2'' then Map.empty
                  else [''TI'' \<mapsto> PStr ''Old study'', ''DP'' \<mapsto> PStr ''1750'']),
           cochrane_search = (\<lambda>q n. []),
           clinicaltrials_search = (\<lambda>q n. [[''title'' \<mapsto> PStr []]])\<rparr>
          ''q'' 50 True True ([], []) =
       Inr ([(''pubmed'',
              \<lparr>title = ''A randomized trial'', authors = [], doi = Some ''10.1234/x'',
               year = Some 2023, sample_size = Some 500, study_type = Some ''RCT'',
               full_text_links = {#''https://doi.org/10.1234/x''#}\<rparr>),
             (''pubmed'',
              \<lparr>title = ''Old study'', authors = [], doi = None, year = Some 1750,
               sample_size = None, study_type = None, full_text_links = {#}\<rparr>)],
            lg')
     \<and> length (filter is_skip_entry lg') = 2"
proof -
  let ?rd = "\<lparr>pubmed_search = (\<lambda>q n. [''1'', ''2'', ''3'']),
           pubmed_fetch_details =
             (\<lambda>p. if p = ''1'' then [''TI'' \<mapsto> PStr ''A randomized trial'',
                                       ''DOI'' \<mapsto> PStr ''10.1234/x'',
                                       ''DP'' \<mapsto> PStr ''2023'',
                                       ''AB'' \<mapsto> PStr ''we studied n=500 adults'']
                  else if p = ''2'' then Map.empty
                  else [''TI'' \<mapsto> PStr ''Old study'', ''DP'' \<mapsto> PStr ''1750'']),
           cochrane_search = (\<lambda>q n. []),
           clinicaltrials_search = (\<lambda>q n. [[''title'' \<mapsto> PStr []]])\<rparr>"
  have p: "normalized ''pubmed'' (map (pubmed_fetch_details ?rd) (pubmed_search ?rd ''q'' 50)) =
       [(''pubmed'',
              \<lparr>title = ''A randomized trial'', authors = [], doi = Some ''10.1234/x'',
               year = Some 2023, sample_size = Some 500, study_type = Some ''RCT'',
               full_text_links = {#''https://doi.org/10.1234/x''#}\<rparr>),
             (''pubmed'',
              \<lparr>title = ''Old study'', authors = [], doi = None, year = Some 1750,
               sample_size = None, study_type = None, full_text_links = {#}\<rparr>)]"
    by code_simp
  have c: "normalized ''cochrane'' (cochrane_search ?rd ''q'' 50) = []"
    by code_simp
  have t: "normalized ''clinicaltrials'' (clinicaltrials_search ?rd ''q'' 50) = []"
    by code_simp
  have fp: "failures (map (pubmed_fetch_details ?rd) (pubmed_search ?rd ''q'' 50)) = 1"
    by code_simp
  have fc: "failures (cochrane_search ?rd ''q'' 50) = 0"
    by code_simp
  have ft: "failures (clinicaltrials_search ?rd ''q'' 50) = 1"
    by code_simp
  from search_databases_skips_failures [of ?rd "''q''" 50 True True "[]" "[]"]
  show ?thesis
    by (simp only: p c t fp fc ft if_True append_Nil append_Nil2 filter.simps list.size)
       (elim exE conjE, intro exI conjI, assumption, simp)
qed

section \<open>The validity scores\<close>

lemma series_cmp_numeric:
  "list_all (\<lambda>c. \<not> is_object_cell c) cs \<Longrightarrow> series_cmp p cs = Inr (map (cmp_cell p) cs)"
  by (induction cs) auto

lemma flagged_snoc:
  "flagged (bs @ [b]) = flagged bs @ (if b then [length bs] else [])"
proof -
  have "filter (\<lambda>i. (bs @ [b]) ! i) [0 ..< length bs] = filter (\<lambda>i. bs ! i) [0 ..< length bs]"
    by (rule filter_cong) (auto simp: nth_append)
  then show ?thesis
    by (simp add: flagged_def nth_append)
qed

lemma length_flagged: "length (flagged bs) = length (filter (\<lambda>b. b) bs)"
proof (induction bs rule: rev_induct)
  case Nil
  show ?case by (simp add: flagged_def)
next
  case (snoc b bs)
  then show ?case by (simp add: flagged_snoc)
qed

lemma count_cmp_column:
  "length (filter (\<lambda>b. b) (map (cmp_cell p) (column df k))) =
   length (filter (\<lambda>r. cmp_cell p (r k)) df)"
  by (induction df) (auto simp: column_def)

lemma no_column_no_hit:
  "\<not> has_column df k \<Longrightarrow> filter (\<lambda>r. cmp_cell p (r k)) df = []"
  by (auto simp: has_column_iff filter_empty_conv)

lemma year_flagged_cmp:
  "year_flagged lo cy = (\<lambda>r. cmp_cell (\<lambda>y. y < lo \<or> y > cy) (r ''year''))"
  by (rule ext) (auto simp: year_flagged_def split: option.splits cell.splits)

lemma sample_flagged_cmp:
  "sample_flagged = (\<lambda>r. cmp_cell (\<lambda>n. n \<le> 0) (r ''sample_size''))"
  by (rule ext) (auto simp: sample_flagged_def split: option.splits cell.splits)

lemma flagged_column_count:
  assumes "list_all (\<lambda>r. \<not> is_object_cell (r k)) df"
  shows "\<exists>ix. (case series_cmp p (column df k) of Inl e \<Rightarrow> Inl e | Inr bs \<Rightarrow> Inr (flagged bs)) = Inr ix
            \<and> length ix = length (filter (\<lambda>r. cmp_cell p (r k)) df)"
proof -
  from assms have "list_all (\<lambda>c. \<not> is_object_cell c) (column df k)"
    by (simp add: column_def list_all_iff)
  then have "series_cmp p (column df k) = Inr (map (cmp_cell p) (column df k))"
    by (rule series_cmp_numeric)
  moreover have "length (flagged (map (cmp_cell p) (column df k))) =
      length (filter (\<lambda>r. cmp_cell p (r k)) df)"
    by (simp only: length_flagged count_cmp_column)
  ultimately show ?thesis by simp
qed

lemma invalid_years_count:
  assumes "list_all (\<lambda>r. \<not> is_object_cell (r ''year'')) df"
  shows "\<exists>ix. invalid_years lo cy df = Inr ix \<and>
              length ix = length (filter (year_flagged lo cy) df)"
  using flagged_column_count [OF assms, of "\<lambda>y. y < lo \<or> y > cy"]
  by (simp only: invalid_years_def year_flagged_cmp)

lemma invalid_samples_count:
  assumes "list_all (\<lambda>r. \<not> is_object_cell (r ''sample_size'')) df"
  shows "\<exists>ix. invalid_samples df = Inr ix \<and> length ix = length (filter sample_flagged df)"
  using flagged_column_count [OF assms, of "\<lambda>n. n \<le> 0"]
  by (simp only: invalid_samples_def sample_flagged_cmp)

lemma no_year_column: "\<not> has_column df ''year'' \<Longrightarrow> filter (year_flagged lo cy) df = []"
  using no_column_no_hit [of df "''year''" "\<lambda>y. y < lo \<or> y > cy"]
  by (simp add: year_flagged_cmp)

lemma no_sample_column: "\<not> has_column df ''sample_size'' \<Longrightarrow> filter sample_flagged df = []"
  using no_column_no_hit [of df "''sample_size''" "\<lambda>n. n \<le> 0"]
  by (simp add: sample_flagged_cmp)

lemma disjoint_counts:
  "\<forall>x \<in> set xs. \<not> (P x \<and> Q x) \<Longrightarrow>
   length (filter P xs) + length (filter Q xs) = length (filter (\<lambda>x. P x \<or> Q x) xs)"
  by (induction xs) auto

lemma dv_validity_score_counts:
  assumes ne: "df \<noteq> []"
      and ny: "list_all (\<lambda>r. \<not> is_object_cell (r ''year'')) df"
      and ns: "list_all (\<lambda>r. \<not> is_object_cell (r ''sample_size'')) df"
  shows "dv_validity_score cy df =
           Inr (max 0 (100 - of_nat (length (filter (year_flagged 1900 cy) df)
                                     + length (filter sample_flagged df))
                             / of_nat (length df) * 100))"
proof -
  from invalid_years_count [OF ny, of 1900 cy] obtain iy where
    iy: "invalid_years 1900 cy df = Inr iy" "length iy = length (filter (year_flagged 1900 cy) df)"
    by blast
  from invalid_samples_count [OF ns] obtain ss where
    ss: "invalid_samples df = Inr ss" "length ss = length (filter sample_flagged df)"
    by blast
  let ?yi = "if has_column df ''year'' then [(''year'', iy)] else []"
  let ?si = "if has_column df ''sample_size'' then [(''sample_size'', ss)] else []"
  have cv: "dv_check_validity cy df = Inr (?yi @ ?si)"
    by (simp add: dv_check_validity_def iy(1) ss(1))
  have ty: "sum_list (map (\<lambda>(f, ix). length ix) ?yi) = length (filter (year_flagged 1900 cy) df)"
    using iy(2) no_year_column [of df 1900 cy] by simp
  have ts: "sum_list (map (\<lambda>(f, ix). length ix) ?si) = length (filter sample_flagged df)"
    using ss(2) no_sample_column [of df] by simp
  have "sum_list (map (\<lambda>(f, ix). length ix) (?yi @ ?si)) =
        length (filter (year_flagged 1900 cy) df) + length (filter sample_flagged df)"
    using ty ts by (simp del: map_append add: map_append [of _ ?yi ?si])
  with ne show ?thesis
    by (simp only: dv_validity_score_def cv sum.case Let_def) simp
qed

lemma qc_check_validity_kinds:
  assumes ny: "list_all (\<lambda>r. \<not> is_object_cell (r ''year'')) df"
      and ns: "list_all (\<lambda>r. \<not> is_object_cell (r ''sample_size'')) df"
  shows "\<exists>found. qc_check_validity cy df = Inr (found, max 0 (100 - of_nat (length found) * 10))
           \<and> found =
               (if list_ex (year_flagged 1800 cy) df
                then [Invalid_years (length (filter (year_flagged 1800 cy) df))] else [])
               @ (if list_ex sample_flagged df
                  then [Invalid_samples (length (filter sample_flagged df))] else [])"
proof -
  from invalid_years_count [OF ny, of 1800 cy] obtain iy where
    iy: "invalid_years 1800 cy df = Inr iy" "length iy = length (filter (year_flagged 1800 cy) df)"
    by blast
  from invalid_samples_count [OF ns] obtain ss where
    ss: "invalid_samples df = Inr ss" "length ss = length (filter sample_flagged df)"
    by blast
  have ey: "iy \<noteq> [] \<longleftrightarrow> list_ex (year_flagged 1800 cy) df"
  proof -
    have "iy = [] \<longleftrightarrow> length (filter (year_flagged 1800 cy) df) = 0"
      using iy(2) by (metis length_0_conv)
    also have "\<dots> \<longleftrightarrow> \<not> list_ex (year_flagged 1800 cy) df"
      by (simp add: filter_empty_conv list_ex_iff)
    finally show ?thesis by simp
  qed
  have es: "ss \<noteq> [] \<longleftrightarrow> list_ex sample_flagged df"
  proof -
    have "ss = [] \<longleftrightarrow> length (filter sample_flagged df) = 0"
      using ss(2) by (metis length_0_conv)
    also have "\<dots> \<longleftrightarrow> \<not> list_ex sample_flagged df"
      by (simp add: filter_empty_conv list_ex_iff)
    finally show ?thesis by simp
  qed
  have hy: "list_ex (year_flagged 1800 cy) df \<Longrightarrow> has_column df ''year''"
    using no_year_column [of df 1800 cy] by (auto simp: list_ex_iff filter_empty_conv)
  have hs: "list_ex sample_flagged df \<Longrightarrow> has_column df ''sample_size''"
    using no_sample_column [of df] by (auto simp: list_ex_iff filter_empty_conv)
  let ?fy = "if list_ex (year_flagged 1800 cy) df
             then [Invalid_years (length (filter (year_flagged 1800 cy) df))] else []"
  let ?fs = "if list_ex sample_flagged df
             then [Invalid_samples (length (filter sample_flagged df))] else []"
  have y: "(if has_column df ''year''
            then (case invalid_years 1800 cy df of
                    Inl e \<Rightarrow> Inl e
                  | Inr ix \<Rightarrow> Inr (if ix \<noteq> [] then [Invalid_years (length ix)] else []))
            else Inr []) = Inr ?fy"
  proof (cases "has_column df ''year''")
    case True
    then show ?thesis by (simp only: iy(1) sum.case if_True ey iy(2))
  next
    case False
    with hy have "\<not> list_ex (year_flagged 1800 cy) df" by blast
    with False show ?thesis by (simp only: if_False)
  qed
  have z: "(if has_column df ''sample_size''
            then (case invalid_samples df of
                    Inl e \<Rightarrow> Inl e
                  | Inr ix \<Rightarrow> Inr (if ix \<noteq> [] then [Invalid_samples (length ix)] else []))
            else Inr []) = Inr ?fs"
  proof (cases "has_column df ''sample_size''")
    case True
    then show ?thesis by (simp only: ss(1) sum.case if_True es ss(2))
  next
    case False
    with hs have "\<not> list_ex sample_flagged df" by blast
    with False show ?thesis by (simp only: if_False)
  qed
  have "qc_check_validity cy df = Inr (?fy @ ?fs, max 0 (100 - of_nat (length (?fy @ ?fs)) * 10))"
    unfolding qc_check_validity_def by (simp only: y z sum.case Let_def)
  then show ?thesis by blast
qed

text \<open>
  Claim C5, as amended. For every non-empty collection whose year and sample-size values
  are integers or missing, the validity score of DataValidator is max(0, 100 - (number of
  records with a year outside [1900, current year] + number of records with a sample size
  <= 0) / total records * 100); a record that violates both rules counts twice, so the
  score is the one of the specification whenever no record violates both. The validity
  score of QualityChecker is max(0, 100 - 10 * k), where k is the number of issues it
  found: one if some year lies outside [1800, current year], one more if some sample size is
  <= 0, however many records are affected.
\<close>

theorem validity_scores_as_coded:
  assumes "df \<noteq> []"
      and "list_all (\<lambda>r. \<not> is_object_cell (r ''year'')) df"
      and "list_all (\<lambda>r. \<not> is_object_cell (r ''sample_size'')) df"
  shows "dv_validity_score cy df =
           Inr (max 0 (100 - of_nat (length (filter (year_flagged 1900 cy) df)
                                     + length (filter sample_flagged df))
                             / of_nat (length df) * 100))
       \<and> ((\<forall>r \<in> set df. \<not> (year_flagged 1900 cy r \<and> sample_flagged r)) \<longrightarrow>
            dv_validity_score cy df = Inr (claimed_validity 1900 cy df))
       \<and> (\<exists>found. qc_check_validity cy df =
                     Inr (found, max 0 (100 - of_nat (length found) * 10))
            \<and> found =
                (if list_ex (year_flagged 1800 cy) df
                 then [Invalid_years (length (filter (year_flagged 1800 cy) df))] else [])
                @ (if list_ex sample_flagged df
                   then [Invalid_samples (length (filter sample_flagged df))] else []))"
proof (intro conjI impI)
  show a: "dv_validity_score cy df =
           Inr (max 0 (100 - of_nat (length (filter (year_flagged 1900 cy) df)
                                     + length (filter sample_flagged df))
                             / of_nat (length df) * 100))"
    using assms by (rule dv_validity_score_counts)
  show "dv_validity_score cy df = Inr (claimed_validity 1900 cy df)"
    if "\<forall>r \<in> set df. \<not> (year_flagged 1900 cy r \<and> sample_flagged r)"
    using disjoint_counts [OF that] a by (simp add: claimed_validity_def)
  show "\<exists>found. qc_check_validity cy df =
                     Inr (found, max 0 (100 - of_nat (length found) * 10))
            \<and> found =
                (if list_ex (year_flagged 1800 cy) df
                 then [Invalid_years (length (filter (year_flagged 1800 cy) df))] else [])
                @ (if list_ex sample_flagged df
                   then [Invalid_samples (length (filter sample_flagged df))] else [])"
    using assms(2,3) by (rule qc_check_validity_kinds)
qed

theorem validity_scores_as_coded_witness:
  "[[''year'' \<mapsto> CInt 1750, ''sample_size'' \<mapsto> CInt 0],
    [''year'' \<mapsto> CInt 2020, ''sample_size'' \<mapsto> CInt 10]] \<noteq> []
 \<and> list_all (\<lambda>r. \<not> is_object_cell (r ''year''))
      [[''year'' \<mapsto> CInt 1750, ''sample_size'' \<mapsto> CInt 0],
       [''year'' \<mapsto> CInt 2020, ''sample_size'' \<mapsto> CInt 10]]
 \<and> list_all (\<lambda>r. \<not> is_object_cell (r ''sample_size''))
      [[''year'' \<mapsto> CInt 1750, ''sample_size'' \<mapsto> CInt 0],
       [''year'' \<mapsto> CInt 2020, ''sample_size'' \<mapsto> CInt 10]]
 \<and> dv_validity_score 2026
      [[''year'' \<mapsto> CInt 1750, ''sample_size'' \<mapsto> CInt 0],
       [''year'' \<mapsto> CInt 2020, ''sample_size'' \<mapsto> CInt 10]] = Inr 0
 \<and> qc_check_validity 2026
      [[''year'' \<mapsto> CInt 1750, ''sample_size'' \<mapsto> CInt 0],
       [''year'' \<mapsto> CInt 2020, ''sample_size'' \<mapsto> CInt 10]]
     = Inr ([Invalid_years 1, Invalid_samples 1], 80)
 \<and> list_all (\<lambda>r. \<not> (year_flagged 1900 2026 r \<and> sample_flagged r))
      [[''year'' \<mapsto> CInt 1750], [''year'' \<mapsto> CInt 2020, ''sample_size'' \<mapsto> CInt 10]]
 \<and> dv_validity_score 2026
      [[''year'' \<mapsto> CInt 1750], [''year'' \<mapsto> CInt 2020, ''sample_size'' \<mapsto> CInt 10]]
     = Inr (claimed_validity 1900 2026
         [[''year'' \<mapsto> CInt 1750], [''year'' \<mapsto> CInt 2020, ''sample_size'' \<mapsto> CInt 10]])
 \<and> claimed_validity 1900 2026
      [[''year'' \<mapsto> CInt 1750], [''year'' \<mapsto> CInt 2020, ''sample_size'' \<mapsto> CInt 10]] = 50"
proof -
  let ?a = "[[''year'' \<mapsto> CInt 1750, ''sample_size'' \<mapsto> CInt 0],
             [''year'' \<mapsto> CInt 2020, ''sample_size'' \<mapsto> CInt 10]]"
  let ?b = "[[''year'' \<mapsto> CInt 1750],
             [''year'' \<mapsto> CInt 2020, ''sample_size'' \<mapsto> CInt 10]]"
  have a0: "?a \<noteq> []" by simp
  have a1: "list_all (\<lambda>r. \<not> is_object_cell (r ''year'')) ?a" by simp
  have a2: "list_all (\<lambda>r. \<not> is_object_cell (r ''sample_size'')) ?a" by simp
  have b0: "?b \<noteq> []" by simp
  have b1: "list_all (\<lambda>r. \<not> is_object_cell (r ''year'')) ?b" by simp
  have b2: "list_all (\<lambda>r. \<not> is_object_cell (r ''sample_size'')) ?b" by simp
  have b3: "list_all (\<lambda>r. \<not> (year_flagged 1900 2026 r \<and> sample_flagged r)) ?b"
    by (simp add: year_flagged_def sample_flagged_def)
  then have b3': "\<forall>r \<in> set ?b. \<not> (year_flagged 1900 2026 r \<and> sample_flagged r)"
    by (simp only: list_all_iff)
  have ya: "length (filter (year_flagged 1900 2026) ?a) = 1"
    by (simp add: year_flagged_def)
  have sa: "length (filter sample_flagged ?a) = 1"
    by (simp add: sample_flagged_def)
  have ya': "filter (year_flagged 1800 2026) ?a = [[''year'' \<mapsto> CInt 1750, ''sample_size'' \<mapsto> CInt 0]]"
    by (simp add: year_flagged_def)
  have sa': "filter sample_flagged ?a = [[''year'' \<mapsto> CInt 1750, ''sample_size'' \<mapsto> CInt 0]]"
    by (simp add: sample_flagged_def)
  have la: "list_ex (year_flagged 1800 2026) ?a" "list_ex sample_flagged ?a"
    by (simp_all add: year_flagged_def sample_flagged_def)
  have cb: "claimed_validity 1900 2026 ?b = 50"
    by (simp add: claimed_validity_def year_flagged_def sample_flagged_def)
  note ta = validity_scores_as_coded [OF a0 a1 a2, of 2026]
  note tb = validity_scores_as_coded [OF b0 b1 b2, of 2026]
  from ta have r1: "dv_validity_score 2026 ?a = Inr 0"
    by (simp only: ya sa) simp
  from ta have r2: "qc_check_validity 2026 ?a = Inr ([Invalid_years 1, Invalid_samples 1], 80)"
    by (simp only: la if_True ya' sa') simp
  from tb b3' have r3: "dv_validity_score 2026 ?b = Inr (claimed_validity 1900 2026 ?b)"
    by blast
  from a0 a1 a2 r1 r2 b3 r3 cb show ?thesis
    by (intro conjI)
qed

theorem validity_formula_counterexample:
  "qc_check_validity 2026 [[''year'' \<mapsto> CInt 1700]] = Inr ([Invalid_years 1], 90)
 \<and> claimed_validity 1800 2026 [[''year'' \<mapsto> CInt 1700]] = 0
 \<and> dv_validity_score 2026
      [[''year'' \<mapsto> CInt 1750, ''sample_size'' \<mapsto> CInt 0],
       [''year'' \<mapsto> CInt 2020, ''sample_size'' \<mapsto> CInt 10]] = Inr 0
 \<and> claimed_validity 1900 2026
      [[''year'' \<mapsto> CInt 1750, ''sample_size'' \<mapsto> CInt 0],
       [''year'' \<mapsto> CInt 2020, ''sample_size'' \<mapsto> CInt 10]] = 50"
proof (intro conjI)
  show "qc_check_validity 2026 [[''year'' \<mapsto> CInt 1700]] = Inr ([Invalid_years 1], 90)"
    by (simp add: qc_check_validity_def has_column_def invalid_years_def column_def flagged_def)
  show "claimed_validity 1800 2026 [[''year'' \<mapsto> CInt 1700]] = 0"
    by (simp add: claimed_validity_def year_flagged_def sample_flagged_def)
  show "dv_validity_score 2026
      [[''year'' \<mapsto> CInt 1750, ''sample_size'' \<mapsto> CInt 0],
       [''year'' \<mapsto> CInt 2020, ''sample_size'' \<mapsto> CInt 10]] = Inr 0"
    by (simp add: dv_validity_score_def dv_check_validity_def has_column_def invalid_years_def
                  invalid_samples_def column_def flagged_def upt_rec)
  show "claimed_validity 1900 2026
      [[''year'' \<mapsto> CInt 1750, ''sample_size'' \<mapsto> CInt 0],
       [''year'' \<mapsto> CInt 2020, ''sample_size'' \<mapsto> CInt 10]] = 50"
    by (simp add: claimed_validity_def year_flagged_def sample_flagged_def)
qed

section \<open>Quality scores of empty and of valid collections\<close>

lemma no_columns_empty: "\<not> has_column [] k"
  by (simp add: has_column_def)

lemma column_dtype_numpy:
  "column_dtype cs \<noteq> pd_Int64Dtype \<and> column_dtype cs \<noteq> pd_Float64Dtype"
  by (simp add: column_dtype_def)

lemma check_year_format_fails: "has_column df ''year'' \<Longrightarrow> \<not> check_year_format df"
  by (simp add: check_year_format_def column_dtype_numpy)

lemma mean_scores_zero: "mean_scores (map (\<lambda>f. (f, 0)) fs) = 0"
  by (simp add: mean_scores_def comp_def)

text \<open>
  Claim C3, as amended. Scoring an empty collection with \<^verbatim>\<open>QualityChecker.check_quality\<close>
  raises nothing and logs nothing: completeness is 0, but consistency and validity are 100
  each (no column exists, so every check passes and no issue is found) and the overall
  score is 60. In DataValidator the completeness score and the validity score divide by
  zero on an empty collection, the consistency score is 100, and \<^verbatim>\<open>validate_all\<close> catches
  the error and returns the empty dict.
\<close>

theorem empty_collection_scores:
  "fst (check_quality rf current_year []) = []
 \<and> (\<exists>m. snd (check_quality rf current_year []) = Inr m \<and> completeness_score m = 0 \<and>
         consistency_score m = 100 \<and> validity_score m = 100 \<and> overall_score m = 60)
 \<and> fst (dv_completeness_score [] vr) = Inl ZeroDivisionError
 \<and> dv_consistency_score [] = Inr 100
 \<and> dv_validity_score current_year [] = Inl ZeroDivisionError
 \<and> validate_all current_year [] vr = ([(ERROR, ''Validation failed'')], Empty_dict, vr)"
proof -
  have c: "qc_check_completeness (qc_required_fields rf) [] =
      (map (\<lambda>f. (f, 0)) (rev (remdups (rev (qc_required_fields rf)))), 0)"
    by (simp add: qc_check_completeness_def no_columns_empty mean_scores_zero)
  have s: "qc_check_consistency [] =
      Inr ([(''year_format'', True), (''author_format'', True), (''doi_format'', True)], 100)"
    by (simp add: qc_check_consistency_def check_doi_format_def check_year_format_def
                  check_author_format_def no_columns_empty passed_percent_def)
  have v: "qc_check_validity current_year [] = Inr ([], 100)"
    by (simp add: qc_check_validity_def no_columns_empty)
  have w: "weighted 0 100 100 = 60"
    by (simp add: weighted_def)
  have q: "check_quality rf current_year [] =
      ([], Inr \<lparr>completeness_score = 0, consistency_score = 100, validity_score = 100,
                overall_score = 60,
                issues = get_completeness_issues
                           (map (\<lambda>f. (f, 0)) (rev (remdups (rev (qc_required_fields rf))))) @
                         get_consistency_issues
                           [(''year_format'', True), (''author_format'', True),
                            (''doi_format'', True)] @ []\<rparr>)"
    by (simp add: check_quality_def c s v w)
  have dc: "dv_check_completeness [] vr = ([], vr)"
    by (simp add: dv_check_completeness_def dv_required_fields_def no_columns_empty)
  have d1: "dv_completeness_score [] vr = (Inl ZeroDivisionError, vr)"
    by (simp add: dv_completeness_score_def dc)
  have dk: "dv_check_consistency [] =
      Inr [(''valid_years'', True), (''author_format'', True), (''doi_format'', True)]"
    by (simp add: dv_check_consistency_def dv_check_year_consistency_def check_doi_format_def
                  check_author_format_def no_columns_empty)
  have d2: "dv_consistency_score [] = Inr 100"
    by (simp add: dv_consistency_score_def dk passed_percent_def)
  have dv: "dv_check_validity current_year [] = Inr []"
    by (simp add: dv_check_validity_def no_columns_empty)
  have d3: "dv_validity_score current_year [] = Inl ZeroDivisionError"
    by (simp add: dv_validity_score_def dv)
  have d4: "dv_calculate_quality_score current_year [] vr = (Inl ZeroDivisionError, vr)"
    by (simp add: dv_calculate_quality_score_def d1)
  have d5: "validate_all current_year [] vr = ([(ERROR, ''Validation failed'')], Empty_dict, vr)"
    by (simp add: validate_all_def dc dk dv d4)
  from q d1 d2 d3 d5 show ?thesis by simp
qed

theorem empty_collection_counterexample:
  "snd (check_quality None 2026 []) =
     Inr \<lparr>completeness_score = 0, consistency_score = 100, validity_score = 100,
          overall_score = 60,
          issues = [Low_completeness ''title'' 0, Low_completeness ''authors'' 0,
                    Low_completeness ''year'' 0, Low_completeness ''doi'' 0,
                    Low_completeness ''sample_size'' 0]\<rparr>
 \<and> dv_validity_score 2026 [] = Inl ZeroDivisionError
 \<and> fst (dv_completeness_score [] []) = Inl ZeroDivisionError"
  by (simp add: check_quality_def qc_check_completeness_def qc_required_fields_def
        default_required_fields_def no_columns_empty mean_scores_def qc_check_consistency_def
        check_doi_format_def check_year_format_def check_author_format_def passed_percent_def
        qc_check_validity_def weighted_def get_completeness_issues_def
        get_consistency_issues_def dv_validity_score_def dv_check_validity_def
        dv_completeness_score_def dv_check_completeness_def dv_required_fields_def)

lemma fully_valid_D:
  assumes "fully_valid cy r"
  obtains t a y d n where "r ''title'' = Some (CStr t)" "r ''authors'' = Some (CList a)"
    "r ''year'' = Some (CInt y)" "1800 \<le> y" "y \<le> cy" "r ''doi'' = Some (CStr d)"
    "re_match DOI_PATTERN d" "r ''sample_size'' = Some (CInt n)" "0 < n"
  using assms by (auto simp: fully_valid_def split: option.splits cell.splits)

lemma full_column:
  assumes "df \<noteq> []" and "\<forall>r \<in> set df. notna (r k)"
  shows "has_column df k" and "notna_percent (column df k) = 100"
proof -
  from assms obtain r where "r \<in> set df" and "notna (r k)"
    by (cases df) auto
  then have "r k \<noteq> None" by (cases "r k") simp_all
  with \<open>r \<in> set df\<close> show "has_column df k"
    by (auto simp: has_column_def list_ex_iff)
  from assms(2) have "filter notna (column df k) = column df k"
    by (simp add: column_def)
  moreover have "length (column df k) = length df"
    by (simp add: column_def)
  ultimately show "notna_percent (column df k) = 100"
    using assms(1) by (simp add: notna_percent_def)
qed

text \<open>
  Claim C4, on the code. For every non-empty collection in which every record has all
  fields present and valid, \<^verbatim>\<open>check_quality\<close> returns completeness 100 and validity 100, but
  consistency 200/3 and an overall score of 90, with the issue that the year-format check
  failed: the check compares the NumPy dtype of the year column with the two nullable
  pandas dtypes, which it never equals.
\<close>

theorem valid_collection_scores_90:
  assumes ne: "df \<noteq> []" and fv: "list_all (fully_valid cy) df"
  shows "check_quality None cy df =
           ([], Inr \<lparr>completeness_score = 100, consistency_score = 200 / 3,
                     validity_score = 100, overall_score = 90,
                     issues = [Failed_consistency ''year_format'']\<rparr>)"
proof -
  have row: "fully_valid cy r" if "r \<in> set df" for r
    using fv that by (simp add: list_all_iff)
  have na: "\<forall>r \<in> set df. notna (r k)"
    if "k \<in> set default_required_fields" for k
  proof
    fix r assume "r \<in> set df"
    from row [OF this] show "notna (r k)"
      using that by (elim fully_valid_D) (auto simp: default_required_fields_def)
  qed
  have col: "has_column df k" and pc: "notna_percent (column df k) = 100"
    if "k \<in> set default_required_fields" for k
    using full_column [OF ne na [OF that]] by simp_all
  have fs: "map (\<lambda>f. (f, if has_column df f then notna_percent (column df f) else 0))
              default_required_fields = map (\<lambda>f. (f, 100)) default_required_fields"
    by (rule map_cong) (simp_all add: col pc)
  have c: "qc_check_completeness (qc_required_fields None) df =
      (map (\<lambda>f. (f, 100)) default_required_fields, 100)"
  proof -
    have "rev (remdups (rev default_required_fields)) = default_required_fields"
      by (simp add: default_required_fields_def)
    then show ?thesis
      by (simp add: qc_check_completeness_def qc_required_fields_def fs)
         (simp add: default_required_fields_def mean_scores_def)
  qed
  have hy: "has_column df ''year''" and ha: "has_column df ''authors''"
    and hd: "has_column df ''doi''" and hs: "has_column df ''sample_size''"
    using col by (simp_all add: default_required_fields_def)
  have yf: "check_year_format df = False"
    using check_year_format_fails [OF hy] by simp
  have af: "check_author_format df = True"
  proof -
    have "is_list_cell (r ''authors'')" if "r \<in> set df" for r
      using row [OF that] by (elim fully_valid_D) simp
    then show ?thesis
      by (simp add: check_author_format_def ha column_def list_all_iff)
  qed
  have dfm: "check_doi_format df = Inr True"
  proof -
    have cells: "is_object_cell (r ''doi'') \<and> doi_cell_ok (r ''doi'')" if "r \<in> set df" for r
      using row [OF that] by (elim fully_valid_D) simp
    from ne obtain r where "r \<in> set df" by (cases df) auto
    with cells have "list_ex is_object_cell (column df ''doi'')"
      by (auto simp: column_def list_ex_iff)
    then have "column_dtype (column df ''doi'') = np_object"
      by (simp add: column_dtype_def)
    moreover from cells have "list_all doi_cell_ok (column df ''doi'')"
      by (simp add: column_def list_all_iff)
    ultimately show ?thesis
      by (simp add: check_doi_format_def hd)
  qed
  have s: "qc_check_consistency df =
      Inr ([(''year_format'', False), (''author_format'', True), (''doi_format'', True)], 200 / 3)"
    by (simp add: qc_check_consistency_def dfm yf af passed_percent_def)
  have v: "qc_check_validity cy df = Inr ([], 100)"
  proof -
    have ny: "list_all (\<lambda>r. \<not> is_object_cell (r ''year'')) df"
      unfolding list_all_iff
    proof
      fix r assume "r \<in> set df"
      from row [OF this] show "\<not> is_object_cell (r ''year'')"
        by (elim fully_valid_D) simp
    qed
    have ns: "list_all (\<lambda>r. \<not> is_object_cell (r ''sample_size'')) df"
      unfolding list_all_iff
    proof
      fix r assume "r \<in> set df"
      from row [OF this] show "\<not> is_object_cell (r ''sample_size'')"
        by (elim fully_valid_D) simp
    qed
    have fy: "\<not> list_ex (year_flagged 1800 cy) df"
      unfolding list_ex_iff
    proof
      assume "\<exists>r \<in> set df. year_flagged 1800 cy r"
      then obtain r where r: "r \<in> set df" "year_flagged 1800 cy r" by blast
      from row [OF r(1)] r(2) show False
        by (elim fully_valid_D) (simp add: year_flagged_def)
    qed
    have fsz: "\<not> list_ex sample_flagged df"
      unfolding list_ex_iff
    proof
      assume "\<exists>r \<in> set df. sample_flagged r"
      then obtain r where r: "r \<in> set df" "sample_flagged r" by blast
      from row [OF r(1)] r(2) show False
        by (elim fully_valid_D) (simp add: sample_flagged_def)
    qed
    from qc_check_validity_kinds [OF ny ns, of cy] fy fsz show ?thesis
      by simp
  qed
  have w: "weighted 100 (200 / 3) 100 = 90"
    by (simp add: weighted_def)
  show ?thesis
    by (simp add: check_quality_def c s v w get_completeness_issues_def
          get_consistency_issues_def default_required_fields_def)
qed

theorem valid_collection_scores_90_witness:
  "[[''title'' \<mapsto> CStr ''T'', ''authors'' \<mapsto> CList [''A B''], ''year'' \<mapsto> CInt 2020,
     ''doi'' \<mapsto> CStr ''10.1234/abc'', ''sample_size'' \<mapsto> CInt 10]] \<noteq> []
 \<and> list_all (fully_valid 2026)
      [[''title'' \<mapsto> CStr ''T'', ''authors'' \<mapsto> CList [''A B''], ''year'' \<mapsto> CInt 2020,
        ''doi'' \<mapsto> CStr ''10.1234/abc'', ''sample_size'' \<mapsto> CInt 10]]
 \<and> check_quality None 2026
      [[''title'' \<mapsto> CStr ''T'', ''authors'' \<mapsto> CList [''A B''], ''year'' \<mapsto> CInt 2020,
        ''doi'' \<mapsto> CStr ''10.1234/abc'', ''sample_size'' \<mapsto> CInt 10]]
     = ([], Inr \<lparr>completeness_score = 100, consistency_score = 200 / 3,
                 validity_score = 100, overall_score = 90,
                 issues = [Failed_consistency ''year_format'']\<rparr>)"
proof -
  let ?df = "[[''title'' \<mapsto> CStr ''T'', ''authors'' \<mapsto> CList [''A B''], ''year'' \<mapsto> CInt 2020,
     ''doi'' \<mapsto> CStr ''10.1234/abc'', ''sample_size'' \<mapsto> CInt 10]]"
  have ne: "?df \<noteq> []" by simp
  have m: "re_match DOI_PATTERN ''10.1234/abc''"
    by code_simp
  have fv: "list_all (fully_valid 2026) ?df"
    by (simp add: fully_valid_def m)
  from valid_collection_scores_90 [OF ne fv] ne fv show ?thesis
    by (intro conjI)
qed

section \<open>Study-type detection\<close>

lemma first_study_type_None_iff:
  "first_study_type ts text = None \<longleftrightarrow>
     (\<forall>i < length ts. \<forall>k \<in> set (snd (ts ! i)). \<not> sublist k text)"
proof (induction ts)
  case Nil
  show ?case by simp
next
  case (Cons t ts)
  obtain st kws where t: "t = (st, kws)" by (cases t)
  show ?case
    by (auto simp: t Cons.IH list_ex_iff nth_Cons less_Suc_eq_0_disj split: nat.splits)
qed

lemma first_study_type_Some_iff:
  "first_study_type ts text = Some c \<longleftrightarrow>
     (\<exists>i < length ts. c = fst (ts ! i) \<and> (\<exists>k \<in> set (snd (ts ! i)). sublist k text) \<and>
        (\<forall>j < i. \<forall>k \<in> set (snd (ts ! j)). \<not> sublist k text))"
proof (induction ts)
  case Nil
  show ?case by simp
next
  case (Cons t ts)
  obtain st kws where t: "t = (st, kws)" by (cases t)
  show ?case
  proof (cases "\<exists>k \<in> set kws. sublist k text")
    case True
    then have "first_study_type (t # ts) text = Some st"
      by (simp add: t list_ex_iff)
    moreover have "(\<exists>i < length (t # ts). c = fst ((t # ts) ! i) \<and>
        (\<exists>k \<in> set (snd ((t # ts) ! i)). sublist k text) \<and>
        (\<forall>j < i. \<forall>k \<in> set (snd ((t # ts) ! j)). \<not> sublist k text)) \<longleftrightarrow> c = st"
    proof
      assume "\<exists>i < length (t # ts). c = fst ((t # ts) ! i) \<and>
        (\<exists>k \<in> set (snd ((t # ts) ! i)). sublist k text) \<and>
        (\<forall>j < i. \<forall>k \<in> set (snd ((t # ts) ! j)). \<not> sublist k text)"
      then obtain i where i: "c = fst ((t # ts) ! i)"
        "\<forall>j < i. \<forall>k \<in> set (snd ((t # ts) ! j)). \<not> sublist k text" by blast
      have "i = 0"
      proof (rule ccontr)
        assume "i \<noteq> 0"
        then have "0 < i" by simp
        with i(2) have "\<forall>k \<in> set (snd ((t # ts) ! 0)). \<not> sublist k text" by blast
        with True show False by (simp add: t)
      qed
      with i(1) show "c = st" by (simp add: t)
    next
      assume "c = st"
      with True show "\<exists>i < length (t # ts). c = fst ((t # ts) ! i) \<and>
        (\<exists>k \<in> set (snd ((t # ts) ! i)). sublist k text) \<and>
        (\<forall>j < i. \<forall>k \<in> set (snd ((t # ts) ! j)). \<not> sublist k text)"
        by (intro exI [of _ 0]) (simp add: t)
    qed
    ultimately show ?thesis by auto
  next
    case False
    then have step: "first_study_type (t # ts) text = first_study_type ts text"
      by (simp add: t list_ex_iff)
    have "(\<exists>i < length (t # ts). c = fst ((t # ts) ! i) \<and>
        (\<exists>k \<in> set (snd ((t # ts) ! i)). sublist k text) \<and>
        (\<forall>j < i. \<forall>k \<in> set (snd ((t # ts) ! j)). \<not> sublist k text)) \<longleftrightarrow>
      (\<exists>i < length ts. c = fst (ts ! i) \<and> (\<exists>k \<in> set (snd (ts ! i)). sublist k text) \<and>
        (\<forall>j < i. \<forall>k \<in> set (snd (ts ! j)). \<not> sublist k text))"
      (is "?L \<longleftrightarrow> ?R")
    proof
      assume ?L
      then obtain i where i: "i < length (t # ts)" "c = fst ((t # ts) ! i)"
        "\<exists>k \<in> set (snd ((t # ts) ! i)). sublist k text"
        "\<forall>j < i. \<forall>k \<in> set (snd ((t # ts) ! j)). \<not> sublist k text" by blast
      have "i \<noteq> 0"
      proof
        assume "i = 0"
        with i(3) have "\<exists>k \<in> set kws. sublist k text" by (simp add: t)
        with False show False by simp
      qed
      then obtain i' where i': "i = Suc i'" by (cases i) auto
      have "\<forall>j < i'. \<forall>k \<in> set (snd (ts ! j)). \<not> sublist k text"
      proof (intro allI impI)
        fix j assume "j < i'"
        then have "Suc j < i" by (simp add: i')
        with i(4) have "\<forall>k \<in> set (snd ((t # ts) ! Suc j)). \<not> sublist k text" by blast
        then show "\<forall>k \<in> set (snd (ts ! j)). \<not> sublist k text" by simp
      qed
      with i(1,2,3) show ?R by (intro exI [of _ i']) (simp add: i')
    next
      assume ?R
      then obtain i where i: "i < length ts" "c = fst (ts ! i)"
        "\<exists>k \<in> set (snd (ts ! i)). sublist k text"
        "\<forall>j < i. \<forall>k \<in> set (snd (ts ! j)). \<not> sublist k text" by blast
      have "\<forall>j < Suc i. \<forall>k \<in> set (snd ((t # ts) ! j)). \<not> sublist k text"
      proof (intro allI impI)
        fix j assume "j < Suc i"
        show "\<forall>k \<in> set (snd ((t # ts) ! j)). \<not> sublist k text"
        proof (cases j)
          case 0
          with False show ?thesis by (simp add: t)
        next
          case (Suc j')
          with \<open>j < Suc i\<close> i(4) show ?thesis by simp
        qed
      qed
      with i(1,2,3) show ?L by (intro exI [of _ "Suc i"]) simp
    qed
    with step Cons.IH show ?thesis by simp
  qed
qed

lemma study_text_strings:
  assumes "get_default data ''TI'' (PStr []) = PStr ti"
      and "get_default data ''AB'' (PStr []) = PStr ab"
      and "get_default data ''PT'' (PStr []) = PStr pt"
      and "get_default data ''publication_type'' (PStr []) = PStr py"
  shows "study_text data = Inr (lower (ti @ '' '' @ ab @ '' '' @ pt @ '' '' @ py))"
  using assms by (simp add: study_text_def join_fields_def)

lemma lower_sublist: "sublist w t \<Longrightarrow> sublist (lower w) (lower t)"
  unfolding lower_def by (rule map_mono_sublist)

lemma rct_first:
  assumes "sublist ''randomized'' text \<or> sublist ''randomised'' text \<or> sublist ''rct'' text"
  shows "first_study_type STUDY_TYPES text = Some ''RCT''"
  using assms by (auto simp: STUDY_TYPES_def)

text \<open>
  Claim C8. Study-type detection goes through the categories in the fixed order RCT, Cohort,
  Case-Control, Meta-Analysis, Systematic Review, Observational over the lower-cased text
  combined from the title, abstract and publication-type fields, and returns the first
  category one of whose keywords occurs in it as a substring. In particular a text that
  contains "randomized", "randomised" or "rct" in any letter case gives RCT, the text
  "meta-analysis" gives Meta-Analysis, and a text without any keyword gives nothing.
\<close>

theorem detect_study_type_first_match:
  assumes "get_default data ''TI'' (PStr []) = PStr ti"
      and "get_default data ''AB'' (PStr []) = PStr ab"
      and "get_default data ''PT'' (PStr []) = PStr pt"
      and "get_default data ''publication_type'' (PStr []) = PStr py"
      and "raw = ti @ '' '' @ ab @ '' '' @ pt @ '' '' @ py"
  shows "map fst STUDY_TYPES =
           [''RCT'', ''Cohort'', ''Case-Control'', ''Meta-Analysis'', ''Systematic Review'',
            ''Observational'']
       \<and> (\<forall>c. snd (detect_study_type data) = Some c \<longleftrightarrow>
            (\<exists>i < length STUDY_TYPES. c = fst (STUDY_TYPES ! i) \<and>
               (\<exists>k \<in> set (snd (STUDY_TYPES ! i)). sublist k (lower raw)) \<and>
               (\<forall>j < i. \<forall>k \<in> set (snd (STUDY_TYPES ! j)). \<not> sublist k (lower raw))))
       \<and> (snd (detect_study_type data) = None \<longleftrightarrow>
            (\<forall>i < length STUDY_TYPES. \<forall>k \<in> set (snd (STUDY_TYPES ! i)). \<not> sublist k (lower raw)))
       \<and> ((\<exists>w. sublist w raw \<and> lower w \<in> {''randomized'', ''randomised'', ''rct''}) \<longrightarrow>
            snd (detect_study_type data) = Some ''RCT'')
       \<and> snd (detect_study_type [''TI'' \<mapsto> PStr ''meta-analysis'']) = Some ''Meta-Analysis''"
proof -
  have st: "study_text data = Inr (lower raw)"
    using assms by (simp add: study_text_strings)
  then have det: "snd (detect_study_type data) = first_study_type STUDY_TYPES (lower raw)"
    by (simp add: detect_study_type_def)
  have order: "map fst STUDY_TYPES =
           [''RCT'', ''Cohort'', ''Case-Control'', ''Meta-Analysis'', ''Systematic Review'',
            ''Observational'']"
    by (simp add: STUDY_TYPES_def)
  have rct: "snd (detect_study_type data) = Some ''RCT''"
    if "\<exists>w. sublist w raw \<and> lower w \<in> {''randomized'', ''randomised'', ''rct''}"
  proof -
    from that obtain w where w: "sublist w raw"
      "lower w \<in> {''randomized'', ''randomised'', ''rct''}" by blast
    from w(1) have "sublist (lower w) (lower raw)" by (rule lower_sublist)
    with w(2) have "sublist ''randomized'' (lower raw) \<or> sublist ''randomised'' (lower raw)
        \<or> sublist ''rct'' (lower raw)" by auto
    then show ?thesis by (simp only: det rct_first)
  qed
  have meta: "snd (detect_study_type [''TI'' \<mapsto> PStr ''meta-analysis'']) = Some ''Meta-Analysis''"
    by code_simp
  from order det rct meta show ?thesis
    by (simp only: first_study_type_Some_iff first_study_type_None_iff) blast
qed

theorem detect_study_type_first_match_witness:
  "get_default [''TI'' \<mapsto> PStr ''A Randomized Controlled Trial''] ''TI'' (PStr [])
      = PStr ''A Randomized Controlled Trial''
 \<and> (\<exists>w. sublist w ''A Randomized Controlled Trial   '' \<and>
         lower w \<in> {''randomized'', ''randomised'', ''rct''})
 \<and> snd (detect_study_type [''TI'' \<mapsto> PStr ''A Randomized Controlled Trial'']) = Some ''RCT''"
proof -
  let ?d = "[''TI'' \<mapsto> PStr ''A Randomized Controlled Trial'']"
  have h1: "get_default ?d ''TI'' (PStr []) = PStr ''A Randomized Controlled Trial''"
    by (simp add: get_default_def)
  have h2: "get_default ?d ''AB'' (PStr []) = PStr []"
    by (simp add: get_default_def)
  have h3: "get_default ?d ''PT'' (PStr []) = PStr []"
    by (simp add: get_default_def)
  have h4: "get_default ?d ''publication_type'' (PStr []) = PStr []"
    by (simp add: get_default_def)
  have h5: "''A Randomized Controlled Trial   '' = ''A Randomized Controlled Trial'' @ '' '' @ [] @ '' '' @ [] @ '' '' @ []"
    by simp
  have sub: "sublist ''Randomized'' ''A Randomized Controlled Trial   ''"
    by code_simp
  have low: "lower ''Randomized'' = ''randomized''"
    by code_simp
  from sub low have ex: "\<exists>w. sublist w ''A Randomized Controlled Trial   '' \<and>
         lower w \<in> {''randomized'', ''randomised'', ''rct''}"
    by blast
  from detect_study_type_first_match [OF h1 h2 h3 h4 h5] ex h1 show ?thesis
    by blast
qed

section \<open>validate\_all and the unbound name\<close>

text \<open>
  Claim C10. Whenever at least one record of the input carries a \<^verbatim>\<open>year\<close> key, the
  year-consistency check of DataValidator raises NameError (the module never imports numpy),
  and \<^verbatim>\<open>validate_all\<close> turns that into the empty dict: it returns no completeness, consistency,
  validity or summary results, and it does not raise.
\<close>

theorem validate_all_year_key_empty:
  assumes "\<exists>r \<in> set df. \<exists>c. r ''year'' = Some c"
  shows "dv_check_year_consistency df = Inl NameError
       \<and> fst (snd (validate_all current_year df vr)) = Empty_dict"
proof -
  from assms have col: "has_column df ''year''"
    by (simp add: has_column_iff)
  then have yc: "dv_check_year_consistency df = Inl NameError"
    by (simp add: dv_check_year_consistency_def)
  then have "dv_check_consistency df = Inl NameError"
    by (simp add: dv_check_consistency_def)
  then have "fst (snd (validate_all current_year df vr)) = Empty_dict"
    by (simp add: validate_all_def split: prod.splits)
  with yc show ?thesis by simp
qed

theorem validate_all_year_key_empty_witness:
  "(\<exists>r \<in> set [[''year'' \<mapsto> CInt 2020]]. \<exists>c. r ''year'' = Some c)
 \<and> dv_check_year_consistency [[''year'' \<mapsto> CInt 2020]] = Inl NameError
 \<and> fst (snd (validate_all 2026 [[''year'' \<mapsto> CInt 2020]] [])) = Empty_dict"
proof -
  have h: "\<exists>r \<in> set [[''year'' \<mapsto> CInt 2020]]. \<exists>c. r ''year'' = Some c"
    by simp
  from validate_all_year_key_empty [OF h, of 2026 "[]"] h show ?thesis
    by simp
qed


end
